theory Spec2Isabelle
  imports Complex_Main "HOL-Library.Multiset"
begin

section \<open>Dates\<close>

text \<open>
  A JavaScript \<open>Date\<close> holds a time value in milliseconds. The functions of
  \<open>date.utils.ts\<close> and \<open>event.utils.ts\<close> read it through date-fns in local time
  only, so a \<open>Date\<close> is modelled by its local time value: the milliseconds since
  1970-01-01 00:00 local time, as an unbounded integer. The local zone has a fixed
  offset (no daylight-saving transitions). The arithmetic on time values is that of
  ECMAScript (\<open>Day\<close>, \<open>HourFromTime\<close>, \<open>MinFromTime\<close>, \<open>MakeDay\<close>, ...);
  \<open>div\<close> and \<open>mod\<close> on \<open>int\<close> are the floor and modulo of that
  specification. An Invalid Date, which only parsing can produce here, is \<open>None\<close> in a
  \<open>Date option\<close>.
\<close>

type_synonym Date = int

definition msPerSecond :: int where "msPerSecond = 1000"
definition msPerMinute :: int where "msPerMinute = 60000"
definition msPerHour :: int where "msPerHour = 3600000"
definition msPerDay :: int where "msPerDay = 86400000"

definition Day :: "Date \<Rightarrow> int" where
  "Day t = t div msPerDay"

definition TimeWithinDay :: "Date \<Rightarrow> int" where
  "TimeWithinDay t = t mod msPerDay"

definition HourFromTime :: "Date \<Rightarrow> int" where
  "HourFromTime t = (t div msPerHour) mod 24"

definition MinFromTime :: "Date \<Rightarrow> int" where
  "MinFromTime t = (t div msPerMinute) mod 60"

definition SecFromTime :: "Date \<Rightarrow> int" where
  "SecFromTime t = (t div msPerSecond) mod 60"

definition msFromTime :: "Date \<Rightarrow> int" where
  "msFromTime t = t mod msPerSecond"

definition WeekDay :: "Date \<Rightarrow> int" where
  "WeekDay t = (Day t + 4) mod 7"

text \<open>date-fns \<open>getHours\<close>, \<open>getMinutes\<close>: the local hour and minute.\<close>

definition getHours :: "Date \<Rightarrow> int" where
  "getHours date = HourFromTime date"

definition getMinutes :: "Date \<Rightarrow> int" where
  "getMinutes date = MinFromTime date"

text \<open>date-fns \<open>startOfDay\<close> sets the local time to 00:00:00.000, \<open>endOfDay\<close> to
  23:59:59.999.\<close>

definition startOfDay :: "Date \<Rightarrow> Date" where
  "startOfDay date = Day date * msPerDay"

definition endOfDay :: "Date \<Rightarrow> Date" where
  "endOfDay date = Day date * msPerDay + (msPerDay - 1)"

definition isSameDay :: "Date \<Rightarrow> Date \<Rightarrow> bool" where
  "isSameDay l r = (startOfDay l = startOfDay r)"

text \<open>date-fns \<open>isWithinInterval\<close> (version 3 and later): the two ends of the interval
  are put in ascending order, then the date is compared with both, inclusively.\<close>

definition isWithinInterval :: "Date \<Rightarrow> Date \<Rightarrow> Date \<Rightarrow> bool" where
  "isWithinInterval date start end =
     (let startTime = min start end; endTime = max start end
      in startTime \<le> date \<and> date \<le> endTime)"

text \<open>date-fns \<open>differenceInMinutes\<close>: the difference in milliseconds divided by 60000
  and rounded towards zero.\<close>

definition differenceInMinutes :: "Date \<Rightarrow> Date \<Rightarrow> int" where
  "differenceInMinutes l r =
     (let diff = l - r
      in if 0 \<le> diff then diff div msPerMinute else - ((- diff) div msPerMinute))"

section \<open>Event layout (date.utils.ts)\<close>

text \<open>JavaScript numbers are modelled by exact real arithmetic here: the operands are
  integers of small size and the properties below are about the value of the quotient.\<close>

definition getTimeSlotPosition :: "Date \<Rightarrow> real" where
  "getTimeSlotPosition date =
     (let hours = getHours date; minutes = getMinutes date
      in (real_of_int (hours * 60 + minutes) / (24 * 60)) * 100)"

definition getEventHeight :: "Date \<Rightarrow> Date \<Rightarrow> real" where
  "getEventHeight startDate endDate =
     (let durationMinutes = differenceInMinutes endDate startDate
      in (real_of_int durationMinutes / (24 * 60)) * 100)"

section \<open>Arrays\<close>

text \<open>\<open>xs[0]\<close> and \<open>xs[xs.length - 1]\<close> are \<open>undefined\<close> (\<open>None\<close>) on an empty
  array; a \<open>Date\<close> object that is read there is always truthy.\<close>

definition first_elem :: "'a list \<Rightarrow> 'a option" where
  "first_elem xs = (case xs of [] \<Rightarrow> None | x # _ \<Rightarrow> Some x)"

definition last_elem :: "'a list \<Rightarrow> 'a option" where
  "last_elem xs = (case xs of [] \<Rightarrow> None | _ # _ \<Rightarrow> Some (last xs))"

section \<open>The calendar of ECMAScript\<close>

text \<open>Years, months and days of the month are read off a time value as ECMAScript
  defines them (\<open>getFullYear\<close>, \<open>getMonth\<close>, \<open>getDate\<close>, \<open>setDate\<close>,
  \<open>setHours\<close> and the \<open>Date\<close> constructor all go through these).\<close>

definition DaysInYear :: "int \<Rightarrow> int" where
  "DaysInYear y =
     (if y mod 4 \<noteq> 0 then 365
      else if y mod 100 \<noteq> 0 then 366
      else if y mod 400 \<noteq> 0 then 365
      else 366)"

definition DayFromYear :: "int \<Rightarrow> int" where
  "DayFromYear y = 365 * (y - 1970) + (y - 1969) div 4 - (y - 1901) div 100 + (y - 1601) div 400"

lemma div_succ:
  assumes "0 < (n::int)"
  shows "(x + 1) div n = x div n + (if (x + 1) mod n = 0 then 1 else 0)"
proof -
  define q r where "q = x div n" and "r = x mod n"
  have x: "x = n * q + r" by (simp add: q_def r_def)
  have r: "0 \<le> r \<and> r < n" using assms by (simp add: r_def)
  show ?thesis
  proof (cases "r + 1 = n")
    case True
    have e: "x + 1 = n * (q + 1) + 0" using x True by (simp add: algebra_simps)
    have "(x + 1) div n = q + 1" by (rule int_div_pos_eq[OF e]) (use assms in simp_all)
    moreover have "(x + 1) mod n = 0" by (rule int_mod_pos_eq[OF e]) (use assms in simp_all)
    ultimately show ?thesis by (simp add: q_def)
  next
    case False
    have e: "x + 1 = n * q + (r + 1)" using x by simp
    have b: "0 \<le> r + 1 \<and> r + 1 < n" using r False by simp
    have "(x + 1) div n = q" by (rule int_div_pos_eq[OF e]) (use b in simp_all)
    moreover have "(x + 1) mod n = r + 1" by (rule int_mod_pos_eq[OF e]) (use b in simp_all)
    ultimately show ?thesis using b r by (simp add: q_def)
  qed
qed

lemma mod_shift: "((y::int) - k * n) mod n = y mod n"
proof -
  have "(y - k * n) mod n = (y + (- k) * n) mod n" by simp
  also have "\<dots> = y mod n" by (rule mod_mult_self1)
  finally show ?thesis .
qed

lemma d4: "((y::int) - 1968) div 4 = (y - 1969) div 4 + (if y mod 4 = 0 then 1 else 0)"
proof -
  have a: "y - 1969 + 1 = y - 1968" by simp
  have b: "(y - 1968) mod 4 = y mod 4" using mod_shift[of y 492 4] by simp
  show ?thesis using div_succ[of 4 "y - 1969"] unfolding a b by simp
qed

lemma d100: "((y::int) - 1900) div 100 = (y - 1901) div 100 + (if y mod 100 = 0 then 1 else 0)"
proof -
  have a: "y - 1901 + 1 = y - 1900" by simp
  have b: "(y - 1900) mod 100 = y mod 100" using mod_shift[of y 19 100] by simp
  show ?thesis using div_succ[of 100 "y - 1901"] unfolding a b by simp
qed

lemma d400: "((y::int) - 1600) div 400 = (y - 1601) div 400 + (if y mod 400 = 0 then 1 else 0)"
proof -
  have a: "y - 1601 + 1 = y - 1600" by simp
  have b: "(y - 1600) mod 400 = y mod 400" using mod_shift[of y 4 400] by simp
  show ?thesis using div_succ[of 400 "y - 1601"] unfolding a b by simp
qed

lemma m100: "(y::int) mod 100 = 0 \<Longrightarrow> y mod 4 = 0"
  using mod_mod_cancel[of 4 100 y] by simp

lemma m400: "(y::int) mod 400 = 0 \<Longrightarrow> y mod 100 = 0"
  using mod_mod_cancel[of 100 400 y] by simp

lemma DayFromYear_Suc: "DayFromYear (y + 1) = DayFromYear y + DaysInYear y"
proof -
  define a b c where "a = (y - 1969) div 4" and "b = (y - 1901) div 100" and "c = (y - 1601) div 400"
  have e: "DayFromYear (y + 1) = 365 * (y - 1969) + (y - 1968) div 4 - (y - 1900) div 100 + (y - 1600) div 400"
    by (simp add: DayFromYear_def)
  have f: "DayFromYear y = 365 * (y - 1970) + a - b + c"
    by (simp add: DayFromYear_def a_def b_def c_def)
  have g: "DayFromYear (y + 1) = 365 * (y - 1969) + (a + (if y mod 4 = 0 then 1 else 0))
      - (b + (if y mod 100 = 0 then 1 else 0)) + (c + (if y mod 400 = 0 then 1 else 0))"
    unfolding e d4 d100 d400 a_def b_def c_def by (rule refl)
  show ?thesis
    unfolding g f DaysInYear_def using m100[of y] m400[of y]
    by (cases "y mod 4 = 0"; cases "y mod 100 = 0"; cases "y mod 400 = 0") simp_all
qed

lemma DaysInYear_pos: "0 < DaysInYear y"
  by (simp add: DaysInYear_def)

lemma DayFromYear_pred: "DayFromYear (y - 1) = DayFromYear y - DaysInYear (y - 1)"
  using DayFromYear_Suc[of "y - 1"] by simp

text \<open>\<open>YearFromTime(t)\<close> is the largest year \<open>y\<close> with \<open>DayFromYear(y) \<le> Day(t)\<close>; it
  is found by a search from an estimate.\<close>

function year_search :: "int \<Rightarrow> int \<Rightarrow> int" where
  "year_search y d =
     (if d < DayFromYear y then year_search (y - 1) d
      else if DayFromYear (y + 1) \<le> d then year_search (y + 1) d
      else y)"
  by pat_completeness auto
termination
proof (relation "measure (\<lambda>(y, d). nat (if d < DayFromYear y then DayFromYear y - d
          else if DayFromYear (y + 1) \<le> d then d - DayFromYear (y + 1) + 1 else 0))")
  show "wf (measure (\<lambda>(y, d). nat (if d < DayFromYear y then DayFromYear y - d
          else if DayFromYear (y + 1) \<le> d then d - DayFromYear (y + 1) + 1 else 0)))"
    by simp
next
  fix y d :: int
  assume "d < DayFromYear y"
  then show "((y - 1, d), (y, d)) \<in> measure (\<lambda>(y, d). nat (if d < DayFromYear y then DayFromYear y - d
          else if DayFromYear (y + 1) \<le> d then d - DayFromYear (y + 1) + 1 else 0))"
    using DaysInYear_pos[of "y - 1"] by (simp add: DayFromYear_pred)
next
  fix y d :: int
  assume "\<not> d < DayFromYear y" and "DayFromYear (y + 1) \<le> d"
  then show "((y + 1, d), (y, d)) \<in> measure (\<lambda>(y, d). nat (if d < DayFromYear y then DayFromYear y - d
          else if DayFromYear (y + 1) \<le> d then d - DayFromYear (y + 1) + 1 else 0))"
    using DaysInYear_pos[of "y + 1"] DaysInYear_pos[of y] DayFromYear_Suc[of "y + 1"] DayFromYear_Suc[of y]
    by (simp add: add.commute)
qed

declare year_search.simps [simp del]

definition YearFromTime :: "Date \<Rightarrow> int" where
  "YearFromTime t = year_search (1970 + Day t div 365) (Day t)"

definition InLeapYear :: "Date \<Rightarrow> int" where
  "InLeapYear t = (if DaysInYear (YearFromTime t) = 366 then 1 else 0)"

definition DayWithinYear :: "Date \<Rightarrow> int" where
  "DayWithinYear t = Day t - DayFromYear (YearFromTime t)"

definition MonthFromTime :: "Date \<Rightarrow> int" where
  "MonthFromTime t =
     (let d = DayWithinYear t; l = InLeapYear t
      in if d < 31 then 0
         else if d < 59 + l then 1
         else if d < 90 + l then 2
         else if d < 120 + l then 3
         else if d < 151 + l then 4
         else if d < 181 + l then 5
         else if d < 212 + l then 6
         else if d < 243 + l then 7
         else if d < 273 + l then 8
         else if d < 304 + l then 9
         else if d < 334 + l then 10
         else 11)"

definition DateFromTime :: "Date \<Rightarrow> int" where
  "DateFromTime t =
     (let d = DayWithinYear t; l = InLeapYear t; m = MonthFromTime t
      in if m = 0 then d + 1
         else if m = 1 then d - 30
         else if m = 2 then d - 58 - l
         else if m = 3 then d - 89 - l
         else if m = 4 then d - 119 - l
         else if m = 5 then d - 150 - l
         else if m = 6 then d - 180 - l
         else if m = 7 then d - 211 - l
         else if m = 8 then d - 242 - l
         else if m = 9 then d - 272 - l
         else if m = 10 then d - 303 - l
         else d - 333 - l)"

text \<open>\<open>MakeDay(year, month, date)\<close>: the day number of the first day of month
  \<open>month mod 12\<close> of year \<open>year + floor(month / 12)\<close>, plus \<open>date - 1\<close>.
  \<open>first_day_of_month mn l\<close> is the day within the year on which month \<open>mn\<close> starts,
  \<open>l\<close> being 1 in a leap year.\<close>

definition first_day_of_month :: "int \<Rightarrow> int \<Rightarrow> int" where
  "first_day_of_month mn l =
     (if mn = 0 then 0
      else if mn = 1 then 31
      else if mn = 2 then 59 + l
      else if mn = 3 then 90 + l
      else if mn = 4 then 120 + l
      else if mn = 5 then 151 + l
      else if mn = 6 then 181 + l
      else if mn = 7 then 212 + l
      else if mn = 8 then 243 + l
      else if mn = 9 then 273 + l
      else if mn = 10 then 304 + l
      else 334 + l)"

definition MakeDay :: "int \<Rightarrow> int \<Rightarrow> int \<Rightarrow> int" where
  "MakeDay year month date =
     (let ym = year + month div 12; mn = month mod 12
      in DayFromYear ym + first_day_of_month mn (if DaysInYear ym = 366 then 1 else 0) + date - 1)"

definition MakeTime :: "int \<Rightarrow> int \<Rightarrow> int \<Rightarrow> int \<Rightarrow> int" where
  "MakeTime hour minute sec ms = hour * msPerHour + minute * msPerMinute + sec * msPerSecond + ms"

definition MakeDate :: "int \<Rightarrow> int \<Rightarrow> Date" where
  "MakeDate day time = day * msPerDay + time"

text \<open>\<open>Date.prototype.setDate\<close>, \<open>setFullYear(year, month, date)\<close>, \<open>setHours\<close> with one
  and with four arguments, and \<open>setMinutes\<close> with one argument (the mutated
  object is the result).\<close>

definition setDate :: "Date \<Rightarrow> int \<Rightarrow> Date" where
  "setDate t dt = MakeDate (MakeDay (YearFromTime t) (MonthFromTime t) dt) (TimeWithinDay t)"

definition setFullYear :: "Date \<Rightarrow> int \<Rightarrow> int \<Rightarrow> int \<Rightarrow> Date" where
  "setFullYear t year month dt = MakeDate (MakeDay year month dt) (TimeWithinDay t)"

definition setHours4 :: "Date \<Rightarrow> int \<Rightarrow> int \<Rightarrow> int \<Rightarrow> int \<Rightarrow> Date" where
  "setHours4 t h m s ms = MakeDate (Day t) (MakeTime h m s ms)"

definition setHours1 :: "Date \<Rightarrow> int \<Rightarrow> Date" where
  "setHours1 t h = MakeDate (Day t) (MakeTime h (MinFromTime t) (SecFromTime t) (msFromTime t))"

definition setMinutes1 :: "Date \<Rightarrow> int \<Rightarrow> Date" where
  "setMinutes1 t m = MakeDate (Day t) (MakeTime (HourFromTime t) m (SecFromTime t) (msFromTime t))"

section \<open>date-fns\<close>

text \<open>\<open>startOfMonth\<close>: \<open>setDate(1)\<close>, \<open>setHours(0, 0, 0, 0)\<close>. \<open>endOfMonth\<close>:
  \<open>setFullYear(getFullYear(), getMonth() + 1, 0)\<close>, \<open>setHours(23, 59, 59, 999)\<close>.\<close>

definition startOfMonth :: "Date \<Rightarrow> Date" where
  "startOfMonth date = setHours4 (setDate date 1) 0 0 0 0"

definition endOfMonth :: "Date \<Rightarrow> Date" where
  "endOfMonth date =
     (let month = MonthFromTime date
      in setHours4 (setFullYear date (YearFromTime date) (month + 1) 0) 23 59 59 999)"

text \<open>\<open>startOfWeek\<close> and \<open>endOfWeek\<close> with the option \<open>weekStartsOn\<close>.\<close>

definition startOfWeek :: "Date \<Rightarrow> int \<Rightarrow> Date" where
  "startOfWeek date weekStartsOn =
     (let day = WeekDay date;
          diff = (if day < weekStartsOn then 7 else 0) + day - weekStartsOn
      in setHours4 (setDate date (DateFromTime date - diff)) 0 0 0 0)"

definition endOfWeek :: "Date \<Rightarrow> int \<Rightarrow> Date" where
  "endOfWeek date weekStartsOn =
     (let day = WeekDay date;
          diff = (if day < weekStartsOn then - 7 else 0) + 6 - (day - weekStartsOn)
      in setHours4 (setDate date (DateFromTime date + diff)) 23 59 59 999)"

text \<open>\<open>eachDayOfInterval\<close> (version 3 and later): from the start of the first day, one
  date per day while it is not after the end; an interval given backwards yields the
  days in descending order.\<close>

lemma MonthFromTime_range: "0 \<le> MonthFromTime t \<and> MonthFromTime t \<le> 11"
  by (simp add: MonthFromTime_def Let_def)

lemma DateFromTime_eq:
  "DateFromTime t = DayWithinYear t - first_day_of_month (MonthFromTime t) (InLeapYear t) + 1"
  by (simp add: DateFromTime_def first_day_of_month_def Let_def)

lemma MakeDay_in_year:
  "0 \<le> m \<Longrightarrow> m \<le> 11 \<Longrightarrow>
   MakeDay y m dt = DayFromYear y + first_day_of_month m (if DaysInYear y = 366 then 1 else 0) + dt - 1"
  by (simp add: MakeDay_def)

lemma MakeDay_of_time:
  "MakeDay (YearFromTime t) (MonthFromTime t) dt = Day t + (dt - DateFromTime t)"
  using MonthFromTime_range[of t]
  by (simp add: MakeDay_in_year DateFromTime_eq DayWithinYear_def InLeapYear_def)

lemma Day_MakeDate: "0 \<le> time \<Longrightarrow> time < msPerDay \<Longrightarrow> Day (MakeDate day time) = day"
  by (simp add: Day_def MakeDate_def msPerDay_def)

lemma next_day_start:
  "setHours4 (setDate t (DateFromTime t + 1)) 0 0 0 0 = (Day t + 1) * msPerDay"
proof -
  have r: "0 \<le> TimeWithinDay t \<and> TimeWithinDay t < msPerDay"
    by (simp add: TimeWithinDay_def msPerDay_def)
  have "Day (setDate t (DateFromTime t + 1)) = Day t + 1"
    using r by (simp add: setDate_def MakeDay_of_time Day_MakeDate)
  then show ?thesis by (simp add: setHours4_def MakeDate_def MakeTime_def)
qed

lemma next_day_start_greater: "t < (Day t + 1) * msPerDay"
proof -
  have "t = Day t * msPerDay + t mod msPerDay" by (simp add: Day_def)
  moreover have "t mod msPerDay < msPerDay" by (simp add: msPerDay_def)
  ultimately show ?thesis by (simp add: algebra_simps)
qed

function each_day_loop :: "Date \<Rightarrow> Date \<Rightarrow> Date list" where
  "each_day_loop currentDate endTime =
     (if currentDate \<le> endTime
      then currentDate #
        each_day_loop (setHours4 (setDate currentDate (DateFromTime currentDate + 1)) 0 0 0 0) endTime
      else [])"
  by pat_completeness auto
termination
proof (relation "measure (\<lambda>(currentDate, endTime). nat (endTime - currentDate + 1))")
  show "wf (measure (\<lambda>(currentDate, endTime). nat (endTime - currentDate + 1)))" by simp
next
  fix currentDate endTime :: Date
  assume "currentDate \<le> endTime"
  then show "((setHours4 (setDate currentDate (DateFromTime currentDate + 1)) 0 0 0 0, endTime),
              (currentDate, endTime)) \<in> measure (\<lambda>(currentDate, endTime). nat (endTime - currentDate + 1))"
    using next_day_start_greater[of currentDate] by (simp add: next_day_start)
qed

declare each_day_loop.simps [simp del]

definition eachDayOfInterval :: "Date \<Rightarrow> Date \<Rightarrow> Date list" where
  "eachDayOfInterval start end =
     (let reversed = (end < start);
          endTime = (if reversed then start else end);
          currentDate = setHours4 (if reversed then end else start) 0 0 0 0;
          dates = each_day_loop currentDate endTime
      in if reversed then rev dates else dates)"

section \<open>The month grid (date.utils.ts)\<close>

text \<open>The padding loop of \<open>getCalendarGrid\<close> does not advance on an empty array
  (\<open>lastDay\<close> is \<open>undefined\<close> there), so it is a partial function: \<open>None\<close> is a
  loop that never ends.\<close>

partial_function (option) pad_days :: "Date list \<Rightarrow> Date list option" where
  "pad_days days =
     (if length days < 42
      then (case last_elem days of
              Some lastDay \<Rightarrow> pad_days (days @ [lastDay + 24 * 60 * 60 * 1000])
            | None \<Rightarrow> pad_days days)
      else Some days)"

definition getCalendarGrid :: "Date \<Rightarrow> Date list option" where
  "getCalendarGrid date =
     (let monthStart = startOfMonth date;
          monthEnd = endOfMonth date;
          calendarStart = startOfWeek monthStart 0;
          calendarEnd = endOfWeek monthEnd 0;
          days = eachDayOfInterval calendarStart calendarEnd
      in map_option (take 42) (pad_days days))"

definition getWeekDays :: "Date \<Rightarrow> Date list" where
  "getWeekDays date =
     (let weekStart = startOfWeek date 0;
          weekEnd = endOfWeek date 0
      in eachDayOfInterval weekStart weekEnd)"

section \<open>Events (calendar.types.ts, event.utils.ts)\<close>

text \<open>The two records share field names; the selectors of the form record are written
  with their qualified names (\<open>EventFormData.title\<close>, ...).\<close>

record EventFormData =
  title :: string
  description :: string
  startDate :: string
  startTime :: string
  endDate :: string
  endTime :: string
  color :: string
  category :: string

record CalendarEvent =
  id :: string
  title :: string
  description :: "string option"
  startDate :: Date
  endDate :: Date
  color :: "string option"
  category :: "string option"

text \<open>\<open>Array.prototype.sort\<close> with a comparator is stable: an insertion sort that puts
  an element before the first later element that it does not exceed.\<close>

fun insert_by :: "('a \<Rightarrow> 'a \<Rightarrow> int) \<Rightarrow> 'a \<Rightarrow> 'a list \<Rightarrow> 'a list" where
  "insert_by cmp x [] = [x]"
| "insert_by cmp x (y # ys) = (if cmp x y \<le> 0 then x # y # ys else y # insert_by cmp x ys)"

fun sort_by :: "('a \<Rightarrow> 'a \<Rightarrow> int) \<Rightarrow> 'a list \<Rightarrow> 'a list" where
  "sort_by cmp [] = []"
| "sort_by cmp (x # xs) = insert_by cmp x (sort_by cmp xs)"

definition getEventsForDate :: "'a CalendarEvent_scheme list \<Rightarrow> Date \<Rightarrow> 'a CalendarEvent_scheme list" where
  "getEventsForDate events date =
     sort_by (\<lambda>a b. startDate a - startDate b)
       (filter (\<lambda>event.
          let eventStart = startOfDay (startDate event);
              eventEnd = endOfDay (endDate event);
              checkDate = startOfDay date
          in isWithinInterval checkDate eventStart eventEnd \<or>
             isSameDay (startDate event) date \<or>
             isSameDay (endDate event) date) events)"

definition getEventsForWeek :: "'a CalendarEvent_scheme list \<Rightarrow> Date list \<Rightarrow> 'a CalendarEvent_scheme list" where
  "getEventsForWeek events weekDays =
     (case (first_elem weekDays, last_elem weekDays) of
        (Some weekStart, Some weekEnd) \<Rightarrow>
          sort_by (\<lambda>a b. startDate a - startDate b)
            (filter (\<lambda>event.
               isWithinInterval (startDate event) (startOfDay weekStart) (endOfDay weekEnd) \<or>
               isWithinInterval (endDate event) (startOfDay weekStart) (endOfDay weekEnd)) events)
      | _ \<Rightarrow> [])"

section \<open>Notions used to state the properties of the month grid\<close>

text \<open>These definitions are not part of the program: they name the first and the last
  day number of the month of a date, and the list of consecutive days that the grid is
  shown to be.\<close>

definition days_before_next_month :: "int \<Rightarrow> int \<Rightarrow> int" where
  "days_before_next_month m l = (if m = 11 then 365 + l else first_day_of_month (m + 1) l)"

definition first_of_month :: "Date \<Rightarrow> int" where
  "first_of_month d = DayFromYear (YearFromTime d) + first_day_of_month (MonthFromTime d) (InLeapYear d)"

definition last_of_month :: "Date \<Rightarrow> int" where
  "last_of_month d = DayFromYear (YearFromTime d) + days_before_next_month (MonthFromTime d) (InLeapYear d) - 1"

text \<open>The days from day number \<open>a\<close> on, as dates at the start of the day.\<close>

definition day_run :: "int \<Rightarrow> nat \<Rightarrow> Date list" where
  "day_run a n = map (\<lambda>i. (a + int i) * msPerDay) [0..<n]"

definition grid_start :: "Date \<Rightarrow> int" where
  "grid_start d = first_of_month d - (first_of_month d + 4) mod 7"

section \<open>Strings and numbers of JavaScript\<close>

text \<open>A string is the list of its code units; \<open>length\<close> is the \<open>length\<close> property.
  Isabelle's \<open>char\<close> has 8 bits, so the code units are those below 256. The white space
  that \<open>trim\<close> removes consists, in this range, of TAB, LF, VT, FF, CR, SPACE and NBSP.\<close>

definition is_white_space :: "char \<Rightarrow> bool" where
  "is_white_space c =
     (c \<in> set [CHR 0x09, CHR 0x0A, CHR 0x0B, CHR 0x0C, CHR 0x0D, CHR 0x20, CHR 0xA0])"

definition trim :: "string \<Rightarrow> string" where
  "trim s = rev (dropWhile is_white_space (rev (dropWhile is_white_space s)))"

text \<open>\<open>String.prototype.split\<close> with a separator of one character.\<close>

fun split :: "char \<Rightarrow> string \<Rightarrow> string list" where
  "split sep [] = [[]]"
| "split sep (c # cs) =
     (if c = sep then [] # split sep cs
      else (case split sep cs of p # ps \<Rightarrow> (c # p) # ps | [] \<Rightarrow> [[c]]))"

definition padStart :: "string \<Rightarrow> nat \<Rightarrow> char \<Rightarrow> string" where
  "padStart s targetLength c = replicate (targetLength - length s) c @ s"

definition digit_char :: "nat \<Rightarrow> char" where
  "digit_char n = char_of (48 + n)"

definition digit_value :: "char \<Rightarrow> nat option" where
  "digit_value c =
     (let n = (of_char c :: nat) in if 48 \<le> n \<and> n \<le> 57 then Some (n - 48) else None)"

text \<open>\<open>String(n)\<close> for a natural number: its decimal digits.\<close>

function String_nat :: "nat \<Rightarrow> string" where
  "String_nat n = (if n < 10 then [digit_char n] else String_nat (n div 10) @ [digit_char (n mod 10)])"
  by pat_completeness auto
termination
  by (relation "measure (\<lambda>n. n)") auto

declare String_nat.simps [simp del]

definition String_int :: "int \<Rightarrow> string" where
  "String_int n = (if n < 0 then CHR ''-'' # String_nat (nat (- n)) else String_nat (nat n))"

fun parse_digits :: "nat \<Rightarrow> string \<Rightarrow> nat option" where
  "parse_digits acc [] = Some acc"
| "parse_digits acc (c # cs) =
     (case digit_value c of None \<Rightarrow> None | Some v \<Rightarrow> parse_digits (10 * acc + v) cs)"

text \<open>\<open>Number(s)\<close> on a string, for the strings that a time input delivers: a string of
  decimal digits has its decimal value and the empty string is 0. Every other string is
  \<open>NaN\<close> (\<open>None\<close>) in this model; JavaScript also reads signs, fractions, exponents,
  radix prefixes and surrounding white space, which no property below depends on.\<close>

definition Number :: "string \<Rightarrow> int option" where
  "Number s = map_option int (parse_digits 0 s)"

section \<open>Formatting and parsing dates (date-fns, date.utils.ts)\<close>

text \<open>date-fns \<open>addLeadingZeros\<close>, and \<open>format\<close> with the patterns \<open>yyyy-MM-dd\<close> and
  \<open>HH:mm\<close>; \<open>yyyy\<close> prints the year of the era.\<close>

definition addLeadingZeros :: "int \<Rightarrow> nat \<Rightarrow> string" where
  "addLeadingZeros number targetLength =
     (let sign = (if number < 0 then ''-'' else '''');
          output = padStart (String_nat (nat \<bar>number\<bar>)) targetLength CHR ''0''
      in sign @ output)"

definition formatDateForInput :: "Date \<Rightarrow> string" where
  "formatDateForInput date =
     (let signedYear = YearFromTime date;
          year = (if 0 < signedYear then signedYear else 1 - signedYear)
      in addLeadingZeros year 4 @ ''-'' @ addLeadingZeros (MonthFromTime date + 1) 2 @ ''-'' @
         addLeadingZeros (DateFromTime date) 2)"

definition formatTimeForInput :: "Date \<Rightarrow> string" where
  "formatTimeForInput date =
     addLeadingZeros (HourFromTime date) 2 @ '':'' @ addLeadingZeros (MinFromTime date) 2"

text \<open>date-fns \<open>parseISO\<close>, for the calendar dates \<open>YYYY-MM-DD\<close> that a date input and
  \<open>formatDateForInput\<close> deliver: four digits, two digits and two digits, checked by
  \<open>validateDate\<close>, give the local midnight of that day. Every other string is an Invalid
  Date (\<open>None\<close>) in this model; date-fns also reads the other ISO 8601 forms (basic
  format, week and ordinal dates, times and zones), which no property below depends on.\<close>

definition isLeapYearIndex :: "int \<Rightarrow> bool" where
  "isLeapYearIndex year = (year mod 400 = 0 \<or> (year mod 4 = 0 \<and> year mod 100 \<noteq> 0))"

definition daysInMonths :: "int option list" where
  "daysInMonths = [Some 31, None, Some 31, Some 30, Some 31, Some 30, Some 31, Some 31, Some 30,
     Some 31, Some 30, Some 31]"

definition validateDate :: "int \<Rightarrow> int \<Rightarrow> int \<Rightarrow> bool" where
  "validateDate year month date =
     (0 \<le> month \<and> month \<le> 11 \<and> 1 \<le> date \<and>
      date \<le> (case daysInMonths ! nat month of
                 Some n \<Rightarrow> n
               | None \<Rightarrow> if isLeapYearIndex year then 29 else 28))"

definition parseISO :: "string \<Rightarrow> Date option" where
  "parseISO argument =
     (if length argument = 10 \<and> argument ! 4 = CHR ''-'' \<and> argument ! 7 = CHR ''-''
      then (case (parse_digits 0 (take 4 argument),
                  parse_digits 0 (take 2 (drop 5 argument)),
                  parse_digits 0 (drop 8 argument)) of
              (Some year, Some mm, Some day) \<Rightarrow>
                (let month = int mm - 1
                 in if validateDate (int year) month (int day)
                    then Some (MakeDate (MakeDay (int year) month (int day)) 0)
                    else None)
            | _ \<Rightarrow> None)
      else None)"

text \<open>date-fns \<open>setHours\<close> and \<open>setMinutes\<close>: an Invalid Date stays invalid, and
  \<open>NaN\<close> hours or minutes make the date invalid.\<close>

definition setHours :: "Date option \<Rightarrow> int option \<Rightarrow> Date option" where
  "setHours date hours =
     (case (date, hours) of (Some t, Some h) \<Rightarrow> Some (setHours1 t h) | _ \<Rightarrow> None)"

definition setMinutes :: "Date option \<Rightarrow> int option \<Rightarrow> Date option" where
  "setMinutes date minutes =
     (case (date, minutes) of (Some t, Some m) \<Rightarrow> Some (setMinutes1 t m) | _ \<Rightarrow> None)"

text \<open>\<open>parseDateTimeInputs\<close>: a missing second part of the time (\<open>undefined\<close>) counts
  as 0.\<close>

definition parseDateTimeInputs :: "string \<Rightarrow> string \<Rightarrow> Date option" where
  "parseDateTimeInputs dateString timeString =
     (let date = parseISO dateString;
          parts = map Number (split CHR '':'' timeString);
          hours = (case parts of h # _ \<Rightarrow> h | [] \<Rightarrow> Some 0);
          minutes = (case parts of _ # m # _ \<Rightarrow> m | _ \<Rightarrow> Some 0)
      in setMinutes (setHours date hours) minutes)"

section \<open>The event form (event.utils.ts)\<close>

datatype field = Title | Description | StartDate | StartTime | EndDate | EndTime | Color | Category

type_synonym FormErrors = "field \<rightharpoonup> string"

definition EVENT_COLORS :: "(string \<times> string) list" where
  "EVENT_COLORS =
     [(''Blue'', ''#3b82f6''), (''Green'', ''#10b981''), (''Yellow'', ''#f59e0b''),
      (''Purple'', ''#8b5cf6''), (''Pink'', ''#ec4899''), (''Red'', ''#ef4444''),
      (''Cyan'', ''#06b6d4''), (''Orange'', ''#f97316'')]"

text \<open>\<open>end <= start\<close> on two \<open>Date\<close> objects compares their time values; it is false
  when one of them is an Invalid Date.\<close>

definition date_le :: "Date option \<Rightarrow> Date option \<Rightarrow> bool" where
  "date_le a b = (case (a, b) of (Some x, Some y) \<Rightarrow> x \<le> y | _ \<Rightarrow> False)"

definition validateEventForm :: "EventFormData \<Rightarrow> FormErrors" where
  "validateEventForm data =
     (let errors = Map.empty;
          errors =
            (if trim (EventFormData.title data) = [] then errors(Title \<mapsto> ''Title is required'')
             else if length (EventFormData.title data) > 100
               then errors(Title \<mapsto> ''Title must be 100 characters or less'')
             else errors);
          errors =
            (if EventFormData.description data \<noteq> [] \<and> length (EventFormData.description data) > 500
             then errors(Description \<mapsto> ''Description must be 500 characters or less'')
             else errors);
          errors =
            (if EventFormData.startDate data = [] then errors(StartDate \<mapsto> ''Start date is required'')
             else errors);
          errors =
            (if startTime data = [] then errors(StartTime \<mapsto> ''Start time is required'')
             else errors);
          errors =
            (if EventFormData.endDate data = [] then errors(EndDate \<mapsto> ''End date is required'')
             else errors);
          errors =
            (if endTime data = [] then errors(EndTime \<mapsto> ''End time is required'')
             else errors);
          errors =
            (if EventFormData.startDate data \<noteq> [] \<and> startTime data \<noteq> [] \<and>
                EventFormData.endDate data \<noteq> [] \<and> endTime data \<noteq> []
             then (let start = parseDateTimeInputs (EventFormData.startDate data) (startTime data);
                       end = parseDateTimeInputs (EventFormData.endDate data) (endTime data)
                   in if date_le end start then errors(EndDate \<mapsto> ''End must be after start'')
                      else errors)
             else errors)
      in errors)"

text \<open>\<open>formDataToEvent\<close>. The identifier that \<open>generateEventId()\<close> would return (it
  reads the clock and a random number) is the parameter \<open>generatedId\<close>. An event record
  holds valid dates only, so the result is \<open>None\<close> when one of the two dates is an
  Invalid Date.\<close>

definition formDataToEvent :: "string \<Rightarrow> EventFormData \<Rightarrow> string option \<Rightarrow> CalendarEvent option" where
  "formDataToEvent generatedId data existingId =
     (case (parseDateTimeInputs (EventFormData.startDate data) (startTime data),
            parseDateTimeInputs (EventFormData.endDate data) (endTime data)) of
        (Some start, Some end) \<Rightarrow>
          Some \<lparr>id = (case existingId of Some i \<Rightarrow> i | None \<Rightarrow> generatedId),
                title = trim (EventFormData.title data),
                description =
                  (if trim (EventFormData.description data) \<noteq> []
                   then Some (trim (EventFormData.description data)) else None),
                startDate = start,
                endDate = end,
                color =
                  (if EventFormData.color data \<noteq> [] then Some (EventFormData.color data)
                   else map_option snd (first_elem EVENT_COLORS)),
                category =
                  (if EventFormData.category data \<noteq> [] then Some (EventFormData.category data)
                   else None)\<rparr>
      | _ \<Rightarrow> None)"


text \<open>\<open>getDefaultFormData\<close>. The value of \<open>new Date()\<close> is the parameter
  \<open>currentTime\<close>.\<close>

definition getDefaultFormData :: "Date \<Rightarrow> Date option \<Rightarrow> EventFormData" where
  "getDefaultFormData currentTime date =
     (let now = (case date of Some d \<Rightarrow> d | None \<Rightarrow> currentTime);
          startDate = formatDateForInput now;
          startHour = getHours now + 1;
          startTime = padStart (String_int startHour) 2 CHR ''0'' @ '':00'';
          endTime = padStart (String_int (startHour + 1)) 2 CHR ''0'' @ '':00''
      in \<lparr>EventFormData.title = '''',
          EventFormData.description = '''',
          EventFormData.startDate = startDate,
          EventFormData.startTime = startTime,
          EventFormData.endDate = startDate,
          EventFormData.endTime = endTime,
          EventFormData.color = (case map_option snd (first_elem EVENT_COLORS) of
                     Some v \<Rightarrow> v | None \<Rightarrow> ''#3b82f6''),
          EventFormData.category = ''''\<rparr>)"

section \<open>Properties of the layout functions\<close>

lemma HourFromTime_range: "0 \<le> HourFromTime t \<and> HourFromTime t < 24"
  by (simp add: HourFromTime_def)

lemma MinFromTime_range: "0 \<le> MinFromTime t \<and> MinFromTime t < 60"
  by (simp add: MinFromTime_def)

lemma mod_div_mult: "0 < a \<Longrightarrow> 0 \<le> b \<Longrightarrow> (t mod (a * b)) div a = (t div a) mod (b::int)"
  by (simp add: zmod_zmult2_eq)

lemma HourFromTime_TimeWithinDay: "HourFromTime t = (TimeWithinDay t div msPerHour) mod 24"
  using mod_div_mult[of 3600000 24 t]
  by (simp add: HourFromTime_def TimeWithinDay_def msPerDay_def msPerHour_def)

lemma MinFromTime_TimeWithinDay: "MinFromTime t = (TimeWithinDay t div msPerMinute) mod 60"
  using mod_div_mult[of 60000 1440 t]
  by (simp add: MinFromTime_def TimeWithinDay_def msPerDay_def msPerMinute_def mod_mod_cancel)

lemma TimeWithinDay_range: "0 \<le> TimeWithinDay t \<and> TimeWithinDay t < msPerDay"
  by (simp add: TimeWithinDay_def msPerDay_def)

lemma TimeWithinDay_startOfDay_add:
  "0 \<le> x \<Longrightarrow> x < msPerDay \<Longrightarrow> TimeWithinDay (startOfDay t + x) = x"
  by (simp add: TimeWithinDay_def startOfDay_def msPerDay_def)

lemma hours_since_midnight: "HourFromTime t = TimeWithinDay t div msPerHour"
proof -
  have "0 \<le> TimeWithinDay t div msPerHour" 
    using TimeWithinDay_range[of t] by (simp add: msPerHour_def pos_imp_zdiv_nonneg_iff)
  moreover have "TimeWithinDay t div msPerHour < 24"
    using TimeWithinDay_range[of t] zdiv_mono1[of "TimeWithinDay t" 86399999 3600000]
    by (simp add: msPerHour_def msPerDay_def)
  ultimately show ?thesis by (simp add: HourFromTime_TimeWithinDay)
qed

lemma position_time_of_day:
  "getTimeSlotPosition t =
     real_of_int ((TimeWithinDay t div msPerHour) * 60 + (TimeWithinDay t div msPerMinute) mod 60) / 1440 * 100"
  by (simp add: getTimeSlotPosition_def getHours_def getMinutes_def
      hours_since_midnight MinFromTime_TimeWithinDay)

lemma position_range: "0 \<le> getTimeSlotPosition t \<and> getTimeSlotPosition t < 100"
proof -
  have h: "0 \<le> HourFromTime t \<and> HourFromTime t \<le> 23" using HourFromTime_range[of t] by simp
  have m: "0 \<le> MinFromTime t \<and> MinFromTime t \<le> 59" using MinFromTime_range[of t] by simp
  have "0 \<le> HourFromTime t * 60 + MinFromTime t \<and> HourFromTime t * 60 + MinFromTime t < 1440"
    using h m by linarith
  then have "0 \<le> real_of_int (HourFromTime t * 60 + MinFromTime t) 
      \<and> real_of_int (HourFromTime t * 60 + MinFromTime t) < 1440"
    by (metis of_int_0_le_iff of_int_less_iff of_int_numeral)
  then show ?thesis
    by (simp add: getTimeSlotPosition_def getHours_def getMinutes_def)
qed

lemma position_at:
  "0 \<le> x \<Longrightarrow> x < msPerDay \<Longrightarrow>
   getTimeSlotPosition (startOfDay t + x) = real_of_int ((x div msPerHour) * 60 + (x div msPerMinute) mod 60) / 1440 * 100"
  by (simp add: position_time_of_day TimeWithinDay_startOfDay_add)

text \<open>
  C7: the vertical position is (hours since midnight * 60 + minutes within the hour)
  / 1440 * 100, a function of the time of day alone (two instants with the same time
  within their day get the same position), it lies in [0, 100), and it is 0 at
  midnight, 50 at 12:00 and strictly between 99 and 100 at 23:59 of any day.
\<close>

theorem getTimeSlotPosition_spec:
  "getTimeSlotPosition t =
     real_of_int ((TimeWithinDay t div msPerHour) * 60 + (TimeWithinDay t div msPerMinute) mod 60) / 1440 * 100
   \<and> (TimeWithinDay t = TimeWithinDay t' \<longrightarrow> getTimeSlotPosition t = getTimeSlotPosition t')
   \<and> 0 \<le> getTimeSlotPosition t \<and> getTimeSlotPosition t < 100
   \<and> getTimeSlotPosition (startOfDay t) = 0
   \<and> getTimeSlotPosition (startOfDay t + 12 * msPerHour) = 50
   \<and> 99 < getTimeSlotPosition (startOfDay t + 23 * msPerHour + 59 * msPerMinute)
   \<and> getTimeSlotPosition (startOfDay t + 23 * msPerHour + 59 * msPerMinute) < 100"
proof -
  have a: "getTimeSlotPosition (startOfDay t) = 0"
    using position_at[of 0 t] by (simp add: msPerDay_def)
  have b: "getTimeSlotPosition (startOfDay t + 12 * msPerHour) = 50"
    using position_at[of "12 * msPerHour" t] by (simp add: msPerDay_def msPerHour_def msPerMinute_def)
  have c: "getTimeSlotPosition (startOfDay t + 23 * msPerHour + 59 * msPerMinute) = 1439 / 1440 * 100"
    using position_at[of "23 * msPerHour + 59 * msPerMinute" t]
    by (simp add: msPerDay_def msPerHour_def msPerMinute_def add.assoc)
  have d: "TimeWithinDay t = TimeWithinDay t' \<longrightarrow> getTimeSlotPosition t = getTimeSlotPosition t'"
    by (simp only: position_time_of_day) simp
  have e: "99 < getTimeSlotPosition (startOfDay t + 23 * msPerHour + 59 * msPerMinute)
      \<and> getTimeSlotPosition (startOfDay t + 23 * msPerHour + 59 * msPerMinute) < 100"
    by (simp only: c) simp
  show ?thesis
    using a b d e position_range[of t] position_time_of_day[of t] by blast
qed

theorem getTimeSlotPosition_spec_witness:
  "TimeWithinDay 34200000 = TimeWithinDay 120600000
   \<and> getTimeSlotPosition 34200000 = getTimeSlotPosition 120600000"
  using getTimeSlotPosition_spec[of 34200000 120600000]
  by (simp add: TimeWithinDay_def msPerDay_def)

lemma differenceInMinutes_nonneg:
  "s \<le> e \<Longrightarrow> differenceInMinutes e s = (e - s) div msPerMinute"
  by (simp add: differenceInMinutes_def)

lemma getEventHeight_formula:
  "getEventHeight s e = real_of_int (differenceInMinutes e s) / 1440 * 100"
  by (simp add: getEventHeight_def)

lemma getEventHeight_range:
  assumes "msPerMinute \<le> e - s" and "e - s \<le> msPerDay"
  shows "0 < getEventHeight s e \<and> getEventHeight s e \<le> 100"
proof -
  have se: "s \<le> e" using assms(1) by (simp add: msPerMinute_def)
  have lo: "1 \<le> (e - s) div msPerMinute"
    using zdiv_mono1[of 60000 "e - s" 60000] assms(1) by (simp add: msPerMinute_def)
  have hi: "(e - s) div msPerMinute \<le> 1440"
    using zdiv_mono1[of "e - s" 86400000 60000] assms(2) by (simp add: msPerMinute_def msPerDay_def)
  have "0 < real_of_int ((e - s) div msPerMinute)" using lo by simp
  moreover have "real_of_int ((e - s) div msPerMinute) \<le> 1440" using hi 
    by (metis of_int_le_iff of_int_numeral)
  ultimately show ?thesis
    by (simp add: getEventHeight_formula differenceInMinutes_nonneg[OF se])
qed

text \<open>
  C8 (as amended): the height is the whole minutes between start and end (rounded
  towards zero) / 1440 * 100 for every pair of instants, and it lies in (0, 100] when
  the end is at least one minute and at most 24 hours after the start.
\<close>

theorem getEventHeight_spec:
  "getEventHeight s e = real_of_int (differenceInMinutes e s) / 1440 * 100
   \<and> (msPerMinute \<le> e - s \<and> e - s \<le> msPerDay \<longrightarrow> 0 < getEventHeight s e \<and> getEventHeight s e \<le> 100)"
  using getEventHeight_formula getEventHeight_range by blast

theorem getEventHeight_spec_witness:
  "msPerMinute \<le> 34200000 - 32400000 \<and> 34200000 - 32400000 \<le> msPerDay
   \<and> 0 < getEventHeight 32400000 34200000 \<and> getEventHeight 32400000 34200000 \<le> 100"
  using getEventHeight_spec[of 32400000 34200000]
  by (simp add: msPerMinute_def msPerDay_def)

text \<open>C8 as stated fails on an event of two days: its height is 200.\<close>

theorem getEventHeight_range_counterexample:
  "\<not> (0 < getEventHeight 0 (2 * msPerDay) \<and> getEventHeight 0 (2 * msPerDay) \<le> 100)"
  by (simp add: getEventHeight_def differenceInMinutes_def msPerDay_def msPerMinute_def)

section \<open>Bucketing events by date and by week\<close>

text \<open>
  C10: for every event list, \<open>getEventsForWeek\<close> on an empty array of week days
  returns the empty list; no interval test is evaluated.
\<close>

theorem getEventsForWeek_empty_week: "getEventsForWeek events [] = []"
  by (simp add: getEventsForWeek_def first_elem_def last_elem_def)

lemma div_le_iff_lt:
  assumes "0 < (n::int)"
  shows "a div n \<le> b div n \<longleftrightarrow> a < (b div n + 1) * n"
proof -
  define q r q' where "q = a div n" and "r = a mod n" and "q' = b div n"
  have a: "a = q * n + r" by (simp add: q_def r_def)
  have r: "0 \<le> r \<and> r < n" using assms by (simp add: r_def)
  have e: "(q' + 1) * n = q' * n + n" by (simp add: algebra_simps)
  have "q \<le> q' \<longleftrightarrow> a < (q' + 1) * n"
    unfolding a e
  proof
    assume "q \<le> q'"
    then have "q * n \<le> q' * n" using assms by (simp add: mult_right_mono)
    then show "q * n + r < q' * n + n" using r by linarith
  next
    assume lt: "q * n + r < q' * n + n"
    show "q \<le> q'"
    proof (rule ccontr)
      assume "\<not> q \<le> q'"
      then have "q' + 1 \<le> q" by simp
      then have "(q' + 1) * n \<le> q * n" using assms by (simp only: mult_right_mono less_imp_le)
      then show False using lt r e by linarith
    qed
  qed
  then show ?thesis by (simp only: q_def q'_def)
qed

lemma div_le_iff_le:
  assumes "0 < (n::int)"
  shows "a div n \<le> b div n \<longleftrightarrow> a div n * n \<le> b"
proof
  define q' r' where "q' = b div n" and "r' = b mod n"
  have b: "b = q' * n + r'" by (simp add: q'_def r'_def)
  have r: "0 \<le> r'" using assms by (simp add: r'_def)
  assume "a div n \<le> b div n"
  then have "a div n * n \<le> q' * n" using assms by (simp add: mult_right_mono q'_def)
  then show "a div n * n \<le> b" using b r by linarith
next
  assume "a div n * n \<le> b"
  then have "(a div n * n) div n \<le> b div n" using assms by (rule zdiv_mono1)
  then show "a div n \<le> b div n" using assms by simp
qed

lemma Day_le_endOfDay: "Day a \<le> Day b \<longleftrightarrow> a \<le> endOfDay b"
proof -
  define q where "q = b div msPerDay"
  have "a div msPerDay \<le> b div msPerDay \<longleftrightarrow> a < (q + 1) * msPerDay"
    unfolding q_def by (rule div_le_iff_lt) (simp add: msPerDay_def)
  also have "\<dots> \<longleftrightarrow> a \<le> q * msPerDay + (msPerDay - 1)"
    by (simp add: algebra_simps) linarith
  finally show ?thesis by (simp add: Day_def endOfDay_def q_def)
qed

lemma Day_le_startOfDay: "Day a \<le> Day b \<longleftrightarrow> startOfDay a \<le> b"
  using div_le_iff_le[of msPerDay a b]
  by (simp add: Day_def startOfDay_def msPerDay_def)

lemma Day_startOfDay: "Day (startOfDay t) = Day t"
  by (simp add: Day_def startOfDay_def msPerDay_def)

lemma Day_endOfDay: "Day (endOfDay t) = Day t"
  by (simp add: Day_def endOfDay_def msPerDay_def)

lemma startOfDay_le_endOfDay: "startOfDay t \<le> endOfDay t"
  by (simp add: startOfDay_def endOfDay_def msPerDay_def)

lemma startOfDay_eq_iff: "startOfDay a = startOfDay b \<longleftrightarrow> Day a = Day b"
  by (simp add: startOfDay_def msPerDay_def)

lemma startOfDay_mono: "a \<le> b \<Longrightarrow> startOfDay a \<le> startOfDay b"
  using zdiv_mono1[of a b msPerDay] by (simp add: startOfDay_def Day_def msPerDay_def)

lemma Day_mono: "a \<le> b \<Longrightarrow> Day a \<le> Day b"
  using zdiv_mono1[of a b msPerDay] by (simp add: Day_def msPerDay_def)

text \<open>The test of \<open>getEventsForDate\<close> on one event, in days.\<close>

lemma on_date_test:
  assumes "startDate ev \<le> endDate ev"
  shows "(let eventStart = startOfDay (startDate ev);
              eventEnd = endOfDay (endDate ev);
              checkDate = startOfDay date
          in isWithinInterval checkDate eventStart eventEnd \<or>
             isSameDay (startDate ev) date \<or>
             isSameDay (endDate ev) date)
         \<longleftrightarrow> startDate ev \<le> endOfDay date \<and> startOfDay date \<le> endDate ev"
proof -
  have d: "Day (startDate ev) \<le> Day (endDate ev)" using assms by (rule Day_mono)
  have ord: "startOfDay (startDate ev) \<le> endOfDay (endDate ev)"
    using d by (simp add: Day_le_endOfDay[symmetric] Day_startOfDay)
  have w: "isWithinInterval (startOfDay date) (startOfDay (startDate ev)) (endOfDay (endDate ev))
        \<longleftrightarrow> Day (startDate ev) \<le> Day date \<and> Day date \<le> Day (endDate ev)"
    using ord
    by (simp add: isWithinInterval_def min_def max_def Day_le_startOfDay[symmetric]
        Day_le_endOfDay[symmetric] Day_startOfDay Day_endOfDay)
  have s: "isSameDay (startDate ev) date \<longleftrightarrow> Day (startDate ev) = Day date"
    by (simp add: isSameDay_def startOfDay_eq_iff)
  have e: "isSameDay (endDate ev) date \<longleftrightarrow> Day (endDate ev) = Day date"
    by (simp add: isSameDay_def startOfDay_eq_iff)
  have r: "startDate ev \<le> endOfDay date \<and> startOfDay date \<le> endDate ev
        \<longleftrightarrow> Day (startDate ev) \<le> Day date \<and> Day date \<le> Day (endDate ev)"
    by (simp add: Day_le_endOfDay[symmetric] Day_le_startOfDay[symmetric])
  show ?thesis unfolding Let_def w s e r using d by auto
qed

lemma insert_by_key: "insert_by (\<lambda>a b. f a - f b) x xs = insort_key f x xs"
  by (induction xs) auto

lemma sort_by_key: "sort_by (\<lambda>a b. f a - f b) xs = sort_key (f :: 'a \<Rightarrow> int) xs"
  by (induction xs) (auto simp: insert_by_key)

lemma sort_by_sorted: "sorted (map f (sort_by (\<lambda>a b. f a - f b) xs))"
  by (simp add: sort_by_key)

lemma sort_by_mset: "mset (sort_by (\<lambda>a b. f a - f b) xs) = mset xs"
  by (simp add: sort_by_key)

lemma sort_by_stable:
  "filter (\<lambda>y. f y = k) (sort_by (\<lambda>a b. f a - f b) xs) = filter (\<lambda>y. f y = k) xs"
  by (simp add: sort_by_key sort_key_stable)

lemma getEventsForDate_filter:
  assumes "\<forall>e \<in> set events. startDate e \<le> endDate e"
  shows "getEventsForDate events d =
     sort_by (\<lambda>a b. startDate a - startDate b)
       (filter (\<lambda>e. startDate e \<le> endOfDay d \<and> startOfDay d \<le> endDate e) events)"
proof -
  have "filter (\<lambda>event.
          let eventStart = startOfDay (startDate event);
              eventEnd = endOfDay (endDate event);
              checkDate = startOfDay d
          in isWithinInterval checkDate eventStart eventEnd \<or>
             isSameDay (startDate event) d \<or>
             isSameDay (endDate event) d) events
      = filter (\<lambda>e. startDate e \<le> endOfDay d \<and> startOfDay d \<le> endDate e) events"
    by (rule filter_cong[OF refl]) (use assms on_date_test in blast)
  then show ?thesis by (simp only: getEventsForDate_def)
qed

text \<open>
  C4: when every event has its end at or after its start, \<open>getEventsForDate\<close>
  returns exactly the events that start at or before the end of the day and end at or
  after its start (with their multiplicities), sorted ascending by start, events with
  equal starts staying in their input order.
\<close>

theorem getEventsForDate_spec:
  "(\<forall>e \<in> set events. startDate e \<le> endDate e) \<longrightarrow>
     mset (getEventsForDate events d) =
       filter_mset (\<lambda>e. startDate e \<le> endOfDay d \<and> startOfDay d \<le> endDate e) (mset events)
   \<and> sorted (map startDate (getEventsForDate events d))
   \<and> (\<forall>k. filter (\<lambda>e. startDate e = k) (getEventsForDate events d) =
            filter (\<lambda>e. startDate e = k)
              (filter (\<lambda>e. startDate e \<le> endOfDay d \<and> startOfDay d \<le> endDate e) events))"
proof
  assume a: "\<forall>e \<in> set events. startDate e \<le> endDate e"
  show "mset (getEventsForDate events d) =
       filter_mset (\<lambda>e. startDate e \<le> endOfDay d \<and> startOfDay d \<le> endDate e) (mset events)
   \<and> sorted (map startDate (getEventsForDate events d))
   \<and> (\<forall>k. filter (\<lambda>e. startDate e = k) (getEventsForDate events d) =
            filter (\<lambda>e. startDate e = k)
              (filter (\<lambda>e. startDate e \<le> endOfDay d \<and> startOfDay d \<le> endDate e) events))"
    unfolding getEventsForDate_filter[OF a]
    by (simp only: sort_by_sorted sort_by_mset sort_by_stable mset_filter simp_thms)
qed

text \<open>An instance of C4: three events, of which the second spans 1970-01-02, the first
  lies within it and the third ends the day before.\<close>

theorem getEventsForDate_spec_witness:
  "(90000000::int) \<le> 93600000 \<and> (3600000::int) \<le> 172900000 \<and> (0::int) \<le> 3600000
   \<and> sorted (map startDate (getEventsForDate
      [\<lparr>id = ''b'', title = ''B'', description = None, startDate = 90000000, endDate = 93600000, color = None, category = None\<rparr>,
       \<lparr>id = ''a'', title = ''A'', description = None, startDate = 3600000, endDate = 172900000, color = None, category = None\<rparr>,
       \<lparr>id = ''c'', title = ''C'', description = None, startDate = 0, endDate = 3600000, color = None, category = None\<rparr>]
      86400000))
   \<and> mset (getEventsForDate
      [\<lparr>id = ''b'', title = ''B'', description = None, startDate = 90000000, endDate = 93600000, color = None, category = None\<rparr>,
       \<lparr>id = ''a'', title = ''A'', description = None, startDate = 3600000, endDate = 172900000, color = None, category = None\<rparr>,
       \<lparr>id = ''c'', title = ''C'', description = None, startDate = 0, endDate = 3600000, color = None, category = None\<rparr>]
      86400000)
     = {#\<lparr>id = ''b'', title = ''B'', description = None, startDate = 90000000, endDate = 93600000, color = None, category = None\<rparr>,
         \<lparr>id = ''a'', title = ''A'', description = None, startDate = 3600000, endDate = 172900000, color = None, category = None\<rparr>#}"
  using getEventsForDate_spec[of
      "[\<lparr>id = ''b'', title = ''B'', description = None, startDate = 90000000, endDate = 93600000, color = None, category = None\<rparr>,
       \<lparr>id = ''a'', title = ''A'', description = None, startDate = 3600000, endDate = 172900000, color = None, category = None\<rparr>,
       \<lparr>id = ''c'', title = ''C'', description = None, startDate = 0, endDate = 3600000, color = None, category = None\<rparr>]"
      86400000]
  by (simp add: startOfDay_def endOfDay_def Day_def msPerDay_def)

text \<open>The events of 1970-01-02 in list order b, a, c are returned as a, b: the
  function evaluated.\<close>

lemma getEventsForDate_example:
  "map id (getEventsForDate
      [\<lparr>id = ''b'', title = ''B'', description = None, startDate = 90000000, endDate = 93600000, color = None, category = None\<rparr>,
       \<lparr>id = ''a'', title = ''A'', description = None, startDate = 3600000, endDate = 172900000, color = None, category = None\<rparr>,
       \<lparr>id = ''c'', title = ''C'', description = None, startDate = 0, endDate = 3600000, color = None, category = None\<rparr>]
      86400000) = [''a'', ''b'']"
  by (simp add: getEventsForDate_def isWithinInterval_def isSameDay_def startOfDay_def
      endOfDay_def Day_def msPerDay_def)

text \<open>
  C2: \<open>getEventsForWeek\<close> tests whether the start or the end of an event lies in the
  week; an event that starts before the week and ends after it intersects the week and
  is left out. The week is 2024-03-10 (a Sunday) to 2024-03-16, the event runs from
  2024-03-08 09:00 to 2024-03-18 10:00.
\<close>

theorem getEventsForWeek_misses_spanning_event:
  "getEventsForWeek
     [\<lparr>id = ''evt-1'', title = ''Conference'', description = None,
       startDate = MakeDate (MakeDay 2024 2 8) (MakeTime 9 0 0 0),
       endDate = MakeDate (MakeDay 2024 2 18) (MakeTime 10 0 0 0),
       color = Some ''#3b82f6'', category = None\<rparr>]
     (getWeekDays (MakeDate (MakeDay 2024 2 13) (MakeTime 12 0 0 0))) = []
   \<and> getWeekDays (MakeDate (MakeDay 2024 2 13) (MakeTime 12 0 0 0)) =
       map (\<lambda>d. MakeDate (MakeDay 2024 2 d) 0) [10, 11, 12, 13, 14, 15, 16]
   \<and> MakeDate (MakeDay 2024 2 8) (MakeTime 9 0 0 0) \<le> endOfDay (MakeDate (MakeDay 2024 2 16) 0)
   \<and> startOfDay (MakeDate (MakeDay 2024 2 10) 0) \<le> MakeDate (MakeDay 2024 2 18) (MakeTime 10 0 0 0)"
  by code_simp

section \<open>Years, months and days of the month\<close>









lemma InLeapYear_cases: "InLeapYear t = 0 \<or> InLeapYear t = 1"
  by (simp add: InLeapYear_def)


lemma month_cases: "0 \<le> (m::int) \<Longrightarrow> m \<le> 11 \<Longrightarrow>
  m = 0 \<or> m = 1 \<or> m = 2 \<or> m = 3 \<or> m = 4 \<or> m = 5 \<or> m = 6 \<or> m = 7 \<or> m = 8 \<or> m = 9 \<or> m = 10 \<or> m = 11"
  by arith




lemma Day_setHours4_start: "setHours4 t 0 0 0 0 = Day t * msPerDay"
  by (simp add: setHours4_def MakeDate_def MakeTime_def)

lemma Day_setHours4_end: "setHours4 t 23 59 59 999 = Day t * msPerDay + (msPerDay - 1)"
  by (simp add: setHours4_def MakeDate_def MakeTime_def msPerDay_def msPerHour_def
      msPerMinute_def msPerSecond_def)

lemma TimeWithinDay_bounds: "0 \<le> TimeWithinDay t \<and> TimeWithinDay t < msPerDay"
  by (simp add: TimeWithinDay_def msPerDay_def)

lemma Day_setDate: "Day (setDate t dt) = Day t + (dt - DateFromTime t)"
  using TimeWithinDay_bounds[of t] by (simp add: setDate_def MakeDay_of_time Day_MakeDate)

lemma Day_setFullYear: "Day (setFullYear t y m dt) = MakeDay y m dt"
  using TimeWithinDay_bounds[of t] by (simp add: setFullYear_def Day_MakeDate)

lemma Day_mult: "Day (k * msPerDay) = k"
  by (simp add: Day_def msPerDay_def)

lemma Day_mult_add: "0 \<le> r \<Longrightarrow> r < msPerDay \<Longrightarrow> Day (k * msPerDay + r) = k"
  by (simp add: Day_def msPerDay_def)

lemma startOfMonth_eq: "startOfMonth d = first_of_month d * msPerDay"
proof -
  have "Day (setDate d 1) = first_of_month d"
    by (simp add: Day_setDate DateFromTime_eq DayWithinYear_def first_of_month_def)
  then show ?thesis by (simp add: startOfMonth_def Day_setHours4_start)
qed

lemma MakeDay_next_month:
  assumes "0 \<le> m" "m \<le> 11"
  shows "MakeDay y (m + 1) 0 =
     DayFromYear y + days_before_next_month m (if DaysInYear y = 366 then 1 else 0) - 1"
proof (cases "m = 11")
  case True
  have "DaysInYear y = 365 + (if DaysInYear y = 366 then 1 else 0)"
    by (simp add: DaysInYear_def)
  then show ?thesis using True
    by (simp add: MakeDay_def days_before_next_month_def first_day_of_month_def DayFromYear_Suc)
next
  case False
  then have "0 \<le> m + 1 \<and> m + 1 \<le> 11" using assms by simp
  then show ?thesis using False
    by (simp add: MakeDay_in_year days_before_next_month_def)
qed

lemma endOfMonth_eq: "endOfMonth d = last_of_month d * msPerDay + (msPerDay - 1)"
proof -
  have "Day (setFullYear d (YearFromTime d) (MonthFromTime d + 1) 0) = last_of_month d"
    using MonthFromTime_range[of d]
    by (simp add: Day_setFullYear MakeDay_next_month last_of_month_def InLeapYear_def)
  then show ?thesis by (simp add: endOfMonth_def Let_def Day_setHours4_end)
qed

lemma month_length_bounds:
  assumes "0 \<le> m" "m \<le> 11" and "l = 0 \<or> l = 1"
  shows "28 \<le> days_before_next_month m l - first_day_of_month m l \<and>
         days_before_next_month m l - first_day_of_month m l \<le> 31"
  using month_cases[OF assms(1,2)] assms(3)
  by (elim disjE) (simp_all add: first_day_of_month_def days_before_next_month_def)


lemma month_length: "28 \<le> last_of_month d - first_of_month d + 1 \<and> last_of_month d - first_of_month d + 1 \<le> 31"
  using month_length_bounds[of "MonthFromTime d" "InLeapYear d"] MonthFromTime_range[of d]
    InLeapYear_cases[of d]
  by (simp add: first_of_month_def last_of_month_def)



lemma WeekDay_range: "0 \<le> WeekDay t \<and> WeekDay t \<le> 6"
  by (simp add: WeekDay_def) 

lemma startOfWeek_eq: "startOfWeek t 0 = (Day t - WeekDay t) * msPerDay"
proof -
  have "\<not> WeekDay t < 0" using WeekDay_range[of t] by simp
  then show ?thesis
    by (simp add: startOfWeek_def Let_def Day_setHours4_start Day_setDate)
qed

lemma endOfWeek_eq: "endOfWeek t 0 = (Day t + 6 - WeekDay t) * msPerDay + (msPerDay - 1)"
proof -
  have "\<not> WeekDay t < 0" using WeekDay_range[of t] by simp
  then show ?thesis
    by (simp add: endOfWeek_def Let_def Day_setHours4_end Day_setDate)
qed


section \<open>Properties of the month grid\<close>

lemma day_run_Suc: "day_run a (Suc n) = a * msPerDay # day_run (a + 1) n"
proof -
  have "[0..<Suc n] = 0 # map Suc [0..<n]" by (simp add: upt_conv_Cons map_Suc_upt del: upt_Suc)
  then show ?thesis by (simp add: day_run_def comp_def add.assoc add.commute)
qed

lemma day_run_snoc: "day_run a (Suc n) = day_run a n @ [(a + int n) * msPerDay]"
  by (simp add: day_run_def)

lemma each_day_loop_eq:
  assumes "0 \<le> r" "r < msPerDay"
  shows "nat (b - a + 1) = n \<Longrightarrow> each_day_loop (a * msPerDay) (b * msPerDay + r) = day_run a n"
proof (induction n arbitrary: a)
  case 0
  then have "b < a" by simp
  then have "b + 1 \<le> a" by simp
  then have "(b + 1) * msPerDay \<le> a * msPerDay" by (simp add: msPerDay_def)
  then have "\<not> a * msPerDay \<le> b * msPerDay + r" using assms by (simp add: algebra_simps)
  then show ?case by (simp add: each_day_loop.simps[of "a * msPerDay"] day_run_def)
next
  case (Suc n)
  then have "a \<le> b" by simp
  then have "a * msPerDay \<le> b * msPerDay" by (simp add: msPerDay_def)
  then have le: "a * msPerDay \<le> b * msPerDay + r" using assms by linarith
  have "nat (b - (a + 1) + 1) = n" using Suc.prems by simp
  then have "each_day_loop ((a + 1) * msPerDay) (b * msPerDay + r) = day_run (a + 1) n"
    by (rule Suc.IH)
  then show ?case using le
    by (simp add: each_day_loop.simps[of "a * msPerDay"] next_day_start Day_mult day_run_Suc)
qed

lemma last_elem_snoc: "last_elem (xs @ [x]) = Some x"
  by (cases xs) (simp_all add: last_elem_def)

lemma length_day_run: "length (day_run a n) = n"
  by (simp add: day_run_def)

lemma last_elem_day_run: "last_elem (day_run a (Suc n)) = Some ((a + int n) * msPerDay)"
  by (simp add: day_run_snoc last_elem_snoc)

lemma pad_days_day_run:
  "0 < n \<Longrightarrow> n \<le> 42 \<Longrightarrow> 42 - n = k \<Longrightarrow> pad_days (day_run a n) = Some (day_run a 42)"
proof (induction k arbitrary: n)
  case 0
  then have "n = 42" by simp
  then show ?case by (simp add: pad_days.simps[of "day_run a 42"] length_day_run)
next
  case (Suc k)
  then obtain n' where n: "n = Suc n'" by (cases n) simp_all
  have lt: "length (day_run a n) < 42" using Suc.prems by (simp add: length_day_run)
  have "pad_days (day_run a (Suc n)) = Some (day_run a 42)"
    using Suc.prems by (intro Suc.IH) simp_all
  moreover have "day_run a n @ [(a + int n') * msPerDay + 24 * 60 * 60 * 1000] = day_run a (Suc n)"
    by (simp add: n day_run_snoc msPerDay_def algebra_simps)
  ultimately show ?case using lt
    by (simp add: pad_days.simps[of "day_run a n"] last_elem_day_run[of a n', folded n])
qed


lemma week_span_lin:
  fixes F L a b u v :: int
  assumes "L + 4 = 7 * a + u" "F + 4 = 7 * b + v" "0 \<le> u" "u < 7" "0 \<le> v" "v < 7"
    and "28 \<le> L - F + 1" "L - F + 1 \<le> 31"
  shows "0 < (L + 6 - u) - (F - v) + 1 \<and> (L + 6 - u) - (F - v) + 1 \<le> 42"
proof -
  have e: "(L + 6 - u) - (F - v) + 1 = 7 * (a - b + 1)" using assms(1,2) by (simp add: algebra_simps)
  have "7 * (a - b + 1) \<le> 43 \<and> 22 \<le> 7 * (a - b + 1)" using assms e by linarith
  then have "a - b + 1 \<le> 6 \<and> 4 \<le> a - b + 1" by presburger
  then show ?thesis unfolding e by presburger
qed

lemma week_span:
  fixes F L :: int
  assumes "28 \<le> L - F + 1" "L - F + 1 \<le> 31"
  shows "0 < (L + 6 - (L + 4) mod 7) - (F - (F + 4) mod 7) + 1 \<and>
         (L + 6 - (L + 4) mod 7) - (F - (F + 4) mod 7) + 1 \<le> 42"
proof (rule week_span_lin[where a = "(L + 4) div 7" and b = "(F + 4) div 7"])
  show "L + 4 = 7 * ((L + 4) div 7) + (L + 4) mod 7" by simp
  show "F + 4 = 7 * ((F + 4) div 7) + (F + 4) mod 7" by simp
qed (use assms in simp_all)


lemma getCalendarGrid_eq: "getCalendarGrid d = Some (day_run (grid_start d) 42)"
proof -
  define F L where "F = first_of_month d" and "L = last_of_month d"
  define S E where "S = F - (F + 4) mod 7" and "E = L + 6 - (L + 4) mod 7"
  have ms: "startOfMonth d = F * msPerDay" by (simp add: startOfMonth_eq F_def)
  have me: "endOfMonth d = L * msPerDay + (msPerDay - 1)" by (simp add: endOfMonth_eq L_def)
  have dl: "Day (L * msPerDay + (msPerDay - 1)) = L"
    by (rule Day_mult_add) (simp_all add: msPerDay_def)
  have cs: "startOfWeek (startOfMonth d) 0 = S * msPerDay"
    by (simp add: ms startOfWeek_eq WeekDay_def Day_mult S_def)
  have ce: "endOfWeek (endOfMonth d) 0 = E * msPerDay + (msPerDay - 1)"
    by (simp add: me startOfWeek_eq endOfWeek_eq WeekDay_def dl E_def)
  have span: "0 < E - S + 1 \<and> E - S + 1 \<le> 42"
    unfolding S_def E_def using month_length[of d] unfolding F_def L_def by (intro week_span) simp_all
  then have "S \<le> E" by simp
  then have "S * msPerDay \<le> E * msPerDay" by (simp add: msPerDay_def)
  then have nr: "\<not> E * msPerDay + (msPerDay - 1) < S * msPerDay" by (simp add: msPerDay_def)
  have loop: "each_day_loop (S * msPerDay) (E * msPerDay + (msPerDay - 1)) = day_run S (nat (E - S + 1))"
    by (rule each_day_loop_eq) (simp_all add: msPerDay_def)
  have days: "eachDayOfInterval (S * msPerDay) (E * msPerDay + (msPerDay - 1)) = day_run S (nat (E - S + 1))"
    using nr loop by (simp add: eachDayOfInterval_def Let_def Day_setHours4_start Day_mult)
  have "pad_days (day_run S (nat (E - S + 1))) = Some (day_run S 42)"
    by (rule pad_days_day_run[OF _ _ refl]) (use span in linarith)+
  then have "getCalendarGrid d = Some (day_run S 42)"
    by (simp add: getCalendarGrid_def Let_def cs ce days length_day_run)
  then show ?thesis by (simp add: grid_start_def S_def F_def)
qed





lemma mult_msPerDay_eq_iff: "a * msPerDay = b * msPerDay \<longleftrightarrow> a = b"
  by (simp add: msPerDay_def)




text \<open>The scenario of the specification: the grid for 2024-02-01 runs from
  2024-01-28 to 2024-03-09.\<close>

lemma grid_february_2024:
  "getCalendarGrid (MakeDate (MakeDay 2024 1 1) 0) = Some (day_run (MakeDay 2024 0 28) 42)
   \<and> last (day_run (MakeDay 2024 0 28) 42) = MakeDate (MakeDay 2024 2 9) 0"
proof -
  have "grid_start (MakeDate (MakeDay 2024 1 1) 0) = MakeDay 2024 0 28" by code_simp
  moreover have "last (day_run (MakeDay 2024 0 28) 42) = MakeDate (MakeDay 2024 2 9) 0"
    by code_simp
  ultimately show ?thesis by (simp add: getCalendarGrid_eq)
qed

section \<open>Validation of the form\<close>

lemma validateEventForm_apply:
  "validateEventForm data k =
     (if k = EndDate \<and> EventFormData.startDate data \<noteq> [] \<and> startTime data \<noteq> [] \<and>
         EventFormData.endDate data \<noteq> [] \<and> endTime data \<noteq> [] \<and>
         date_le (parseDateTimeInputs (EventFormData.endDate data) (endTime data))
                 (parseDateTimeInputs (EventFormData.startDate data) (startTime data))
      then Some ''End must be after start''
      else if k = EndTime \<and> endTime data = [] then Some ''End time is required''
      else if k = EndDate \<and> EventFormData.endDate data = [] then Some ''End date is required''
      else if k = StartTime \<and> startTime data = [] then Some ''Start time is required''
      else if k = StartDate \<and> EventFormData.startDate data = [] then Some ''Start date is required''
      else if k = Description \<and> EventFormData.description data \<noteq> [] \<and>
              500 < length (EventFormData.description data)
        then Some ''Description must be 500 characters or less''
      else if k = Title \<and> trim (EventFormData.title data) = [] then Some ''Title is required''
      else if k = Title \<and> 100 < length (EventFormData.title data)
        then Some ''Title must be 100 characters or less''
      else None)"
proof -
  define e1 :: FormErrors where "e1 =
     (if trim (EventFormData.title data) = [] then Map.empty(Title \<mapsto> ''Title is required'')
      else if length (EventFormData.title data) > 100
        then Map.empty(Title \<mapsto> ''Title must be 100 characters or less'')
      else Map.empty)"
  define e2 where "e2 =
     (if EventFormData.description data \<noteq> [] \<and> length (EventFormData.description data) > 500
      then e1(Description \<mapsto> ''Description must be 500 characters or less'') else e1)"
  define e3 where "e3 =
     (if EventFormData.startDate data = [] then e2(StartDate \<mapsto> ''Start date is required'') else e2)"
  define e4 where "e4 =
     (if startTime data = [] then e3(StartTime \<mapsto> ''Start time is required'') else e3)"
  define e5 where "e5 =
     (if EventFormData.endDate data = [] then e4(EndDate \<mapsto> ''End date is required'') else e4)"
  define e6 where "e6 =
     (if endTime data = [] then e5(EndTime \<mapsto> ''End time is required'') else e5)"
  define e7 where "e7 =
     (if EventFormData.startDate data \<noteq> [] \<and> startTime data \<noteq> [] \<and>
         EventFormData.endDate data \<noteq> [] \<and> endTime data \<noteq> []
      then (if date_le (parseDateTimeInputs (EventFormData.endDate data) (endTime data))
                 (parseDateTimeInputs (EventFormData.startDate data) (startTime data))
            then e6(EndDate \<mapsto> ''End must be after start'') else e6)
      else e6)"
  have v: "validateEventForm data = e7"
    unfolding validateEventForm_def Let_def e7_def e6_def e5_def e4_def e3_def e2_def e1_def
    by (rule refl)
  have a1: "e1 k = (if k = Title \<and> trim (EventFormData.title data) = [] then Some ''Title is required''
      else if k = Title \<and> 100 < length (EventFormData.title data)
        then Some ''Title must be 100 characters or less''
      else None)" by (simp add: e1_def)
  have a2: "e2 k = (if k = Description \<and> EventFormData.description data \<noteq> [] \<and>
              500 < length (EventFormData.description data)
        then Some ''Description must be 500 characters or less'' else e1 k)"
    by (simp add: e2_def)
  have a3: "e3 k = (if k = StartDate \<and> EventFormData.startDate data = []
      then Some ''Start date is required'' else e2 k)" by (simp add: e3_def)
  have a4: "e4 k = (if k = StartTime \<and> startTime data = []
      then Some ''Start time is required'' else e3 k)" by (simp add: e4_def)
  have a5: "e5 k = (if k = EndDate \<and> EventFormData.endDate data = []
      then Some ''End date is required'' else e4 k)" by (simp add: e5_def)
  have a6: "e6 k = (if k = EndTime \<and> endTime data = []
      then Some ''End time is required'' else e5 k)" by (simp add: e6_def)
  have a7: "e7 k = (if k = EndDate \<and> EventFormData.startDate data \<noteq> [] \<and> startTime data \<noteq> [] \<and>
         EventFormData.endDate data \<noteq> [] \<and> endTime data \<noteq> [] \<and>
         date_le (parseDateTimeInputs (EventFormData.endDate data) (endTime data))
                 (parseDateTimeInputs (EventFormData.startDate data) (startTime data))
      then Some ''End must be after start'' else e6 k)" by (simp add: e7_def)
  show ?thesis
    unfolding v a7 a6 a5 a4 a3 a2 a1
    by (cases k) (simp_all split del: if_split)
qed


text \<open>
  C9: when the title trims to a non-empty string of at most 100 characters and its
  untrimmed length exceeds 100, \<open>validateEventForm\<close> reports the title as too long,
  although every event that \<open>formDataToEvent\<close> builds from these fields carries the
  trimmed title.
\<close>

theorem validateEventForm_untrimmed_length:
  "trim (EventFormData.title data) \<noteq> [] \<and> length (trim (EventFormData.title data)) \<le> 100 \<and>
   100 < length (EventFormData.title data)
   \<longrightarrow> validateEventForm data Title = Some ''Title must be 100 characters or less''
     \<and> (\<forall>ev. formDataToEvent generatedId data existingId = Some ev
            \<longrightarrow> title ev = trim (EventFormData.title data) \<and> length (title ev) \<le> 100)"
  by (auto simp: validateEventForm_apply formDataToEvent_def split: option.splits)

lemma trim_trailing_spaces: "trim (replicate 100 CHR ''a'' @ ''  '') = replicate 100 CHR ''a''"
  by (simp add: trim_def is_white_space_def)

lemma parse_example_times:
  "parseDateTimeInputs ''2024-03-10'' ''09:00'' = Some (MakeDate (MakeDay 2024 2 10) (MakeTime 9 0 0 0))
   \<and> parseDateTimeInputs ''2024-03-10'' ''10:00'' = Some (MakeDate (MakeDay 2024 2 10) (MakeTime 10 0 0 0))
   \<and> parseDateTimeInputs ''2024-03-10'' ''08:00'' = Some (MakeDate (MakeDay 2024 2 10) (MakeTime 8 0 0 0))"
  by code_simp

theorem validateEventForm_untrimmed_length_witness:
  "trim (replicate 100 CHR ''a'' @ ''  '') \<noteq> []
   \<and> length (trim (replicate 100 CHR ''a'' @ ''  '')) \<le> 100
   \<and> 100 < length (replicate 100 CHR ''a'' @ ''  '')
   \<and> validateEventForm
        \<lparr>EventFormData.title = replicate 100 CHR ''a'' @ ''  '', EventFormData.description = '''',
         EventFormData.startDate = ''2024-03-10'', EventFormData.startTime = ''09:00'',
         EventFormData.endDate = ''2024-03-10'', EventFormData.endTime = ''10:00'',
         EventFormData.color = ''#3b82f6'', EventFormData.category = ''''\<rparr> Title
       = Some ''Title must be 100 characters or less''
   \<and> map_option title (formDataToEvent ''evt-0''
        \<lparr>EventFormData.title = replicate 100 CHR ''a'' @ ''  '', EventFormData.description = '''',
         EventFormData.startDate = ''2024-03-10'', EventFormData.startTime = ''09:00'',
         EventFormData.endDate = ''2024-03-10'', EventFormData.endTime = ''10:00'',
         EventFormData.color = ''#3b82f6'', EventFormData.category = ''''\<rparr> None)
       = Some (replicate 100 CHR ''a'')"
  using validateEventForm_untrimmed_length[of
        "\<lparr>EventFormData.title = replicate 100 CHR ''a'' @ ''  '', EventFormData.description = '''',
         EventFormData.startDate = ''2024-03-10'', EventFormData.startTime = ''09:00'',
         EventFormData.endDate = ''2024-03-10'', EventFormData.endTime = ''10:00'',
         EventFormData.color = ''#3b82f6'', EventFormData.category = ''''\<rparr>" "''evt-0''" None]
    parse_example_times
  by (simp add: trim_trailing_spaces formDataToEvent_def)

text \<open>
  C5 (as amended): when all four date and time strings are present and the combined end
  instant is at or before the combined start instant, the error mapping has the entry
  ``End must be after start'' at the end-date field; when moreover the title is present
  and has at most 100 characters untrimmed, the description has at most 500 characters,
  and the combined end is strictly after the combined start, the error mapping is empty.
\<close>

theorem validateEventForm_end_after_start:
  "(EventFormData.startDate f \<noteq> [] \<and> startTime f \<noteq> [] \<and>
    EventFormData.endDate f \<noteq> [] \<and> endTime f \<noteq> [] \<and>
    parseDateTimeInputs (EventFormData.startDate f) (startTime f) = Some s \<and>
    parseDateTimeInputs (EventFormData.endDate f) (endTime f) = Some e \<and> e \<le> s
    \<longrightarrow> validateEventForm f EndDate = Some ''End must be after start'')
   \<and> (trim (EventFormData.title g) \<noteq> [] \<and> length (EventFormData.title g) \<le> 100 \<and>
      length (EventFormData.description g) \<le> 500 \<and>
      EventFormData.startDate g \<noteq> [] \<and> startTime g \<noteq> [] \<and>
      EventFormData.endDate g \<noteq> [] \<and> endTime g \<noteq> [] \<and>
      parseDateTimeInputs (EventFormData.startDate g) (startTime g) = Some s' \<and>
      parseDateTimeInputs (EventFormData.endDate g) (endTime g) = Some e' \<and> s' < e'
      \<longrightarrow> validateEventForm g = Map.empty)"
proof (intro conjI impI)
  assume "EventFormData.startDate f \<noteq> [] \<and> startTime f \<noteq> [] \<and>
    EventFormData.endDate f \<noteq> [] \<and> endTime f \<noteq> [] \<and>
    parseDateTimeInputs (EventFormData.startDate f) (startTime f) = Some s \<and>
    parseDateTimeInputs (EventFormData.endDate f) (endTime f) = Some e \<and> e \<le> s"
  then show "validateEventForm f EndDate = Some ''End must be after start''"
    by (simp add: validateEventForm_apply date_le_def)
next
  assume a: "trim (EventFormData.title g) \<noteq> [] \<and> length (EventFormData.title g) \<le> 100 \<and>
      length (EventFormData.description g) \<le> 500 \<and>
      EventFormData.startDate g \<noteq> [] \<and> startTime g \<noteq> [] \<and>
      EventFormData.endDate g \<noteq> [] \<and> endTime g \<noteq> [] \<and>
      parseDateTimeInputs (EventFormData.startDate g) (startTime g) = Some s' \<and>
      parseDateTimeInputs (EventFormData.endDate g) (endTime g) = Some e' \<and> s' < e'"
  have "validateEventForm g k = None" for k
    using a by (simp add: validateEventForm_apply date_le_def)
  then show "validateEventForm g = Map.empty" by (intro ext)
qed

theorem validateEventForm_end_after_start_witness:
  "validateEventForm
     \<lparr>EventFormData.title = ''Standup'', EventFormData.description = '''',
      EventFormData.startDate = ''2024-03-10'', EventFormData.startTime = ''09:00'',
      EventFormData.endDate = ''2024-03-10'', EventFormData.endTime = ''08:00'',
      EventFormData.color = ''#3b82f6'', EventFormData.category = ''''\<rparr> EndDate
     = Some ''End must be after start''
   \<and> validateEventForm
     \<lparr>EventFormData.title = ''Standup'', EventFormData.description = '''',
      EventFormData.startDate = ''2024-03-10'', EventFormData.startTime = ''09:00'',
      EventFormData.endDate = ''2024-03-10'', EventFormData.endTime = ''10:00'',
      EventFormData.color = ''#3b82f6'', EventFormData.category = ''''\<rparr> = Map.empty"
proof -
  have t: "trim ''Standup'' = ''Standup''" by (simp add: trim_def is_white_space_def)
  show ?thesis
    using validateEventForm_end_after_start[of
     "\<lparr>EventFormData.title = ''Standup'', EventFormData.description = '''',
      EventFormData.startDate = ''2024-03-10'', EventFormData.startTime = ''09:00'',
      EventFormData.endDate = ''2024-03-10'', EventFormData.endTime = ''08:00'',
      EventFormData.color = ''#3b82f6'', EventFormData.category = ''''\<rparr>"
     "MakeDate (MakeDay 2024 2 10) (MakeTime 9 0 0 0)" "MakeDate (MakeDay 2024 2 10) (MakeTime 8 0 0 0)"
     "\<lparr>EventFormData.title = ''Standup'', EventFormData.description = '''',
      EventFormData.startDate = ''2024-03-10'', EventFormData.startTime = ''09:00'',
      EventFormData.endDate = ''2024-03-10'', EventFormData.endTime = ''10:00'',
      EventFormData.color = ''#3b82f6'', EventFormData.category = ''''\<rparr>"
     "MakeDate (MakeDay 2024 2 10) (MakeTime 9 0 0 0)" "MakeDate (MakeDay 2024 2 10) (MakeTime 10 0 0 0)"]
      parse_example_times
    by (simp add: t MakeDate_def MakeTime_def msPerHour_def)
qed

text \<open>C5 as stated fails on a title of 101 characters: title, dates and times are
  present and the end is after the start, and the title is reported as too long.\<close>

theorem validateEventForm_long_title_counterexample:
  "trim (replicate 101 CHR ''a'') \<noteq> []
   \<and> parseDateTimeInputs ''2024-03-10'' ''09:00'' = Some (MakeDate (MakeDay 2024 2 10) (MakeTime 9 0 0 0))
   \<and> parseDateTimeInputs ''2024-03-10'' ''10:00'' = Some (MakeDate (MakeDay 2024 2 10) (MakeTime 10 0 0 0))
   \<and> MakeDate (MakeDay 2024 2 10) (MakeTime 9 0 0 0) < MakeDate (MakeDay 2024 2 10) (MakeTime 10 0 0 0)
   \<and> validateEventForm
     \<lparr>EventFormData.title = replicate 101 CHR ''a'', EventFormData.description = '''',
      EventFormData.startDate = ''2024-03-10'', EventFormData.startTime = ''09:00'',
      EventFormData.endDate = ''2024-03-10'', EventFormData.endTime = ''10:00'',
      EventFormData.color = ''#3b82f6'', EventFormData.category = ''''\<rparr> \<noteq> Map.empty"
proof -
  have t: "trim (replicate 101 CHR ''a'') = replicate 101 CHR ''a''"
    by (simp add: trim_def is_white_space_def)
  have "validateEventForm
     \<lparr>EventFormData.title = replicate 101 CHR ''a'', EventFormData.description = '''',
      EventFormData.startDate = ''2024-03-10'', EventFormData.startTime = ''09:00'',
      EventFormData.endDate = ''2024-03-10'', EventFormData.endTime = ''10:00'',
      EventFormData.color = ''#3b82f6'', EventFormData.category = ''''\<rparr> Title
      = Some ''Title must be 100 characters or less''"
    by (simp add: validateEventForm_apply t)
  then have "validateEventForm
     \<lparr>EventFormData.title = replicate 101 CHR ''a'', EventFormData.description = '''',
      EventFormData.startDate = ''2024-03-10'', EventFormData.startTime = ''09:00'',
      EventFormData.endDate = ''2024-03-10'', EventFormData.endTime = ''10:00'',
      EventFormData.color = ''#3b82f6'', EventFormData.category = ''''\<rparr> \<noteq> Map.empty"
    by (metis option.distinct(1))
  then show ?thesis using parse_example_times
    by (simp add: t MakeDate_def MakeTime_def msPerHour_def)
qed

section \<open>Defaults of a new event\<close>

lemma String_nat_digit: "n < 10 \<Longrightarrow> String_nat n = [digit_char n]"
  by (simp add: String_nat.simps[of n])

lemma String_nat_two: "10 \<le> n \<Longrightarrow> n < 100 \<Longrightarrow> String_nat n = [digit_char (n div 10), digit_char (n mod 10)]"
  by (simp add: String_nat.simps[of n] String_nat_digit)

lemma pad_two: "n < 100 \<Longrightarrow> padStart (String_nat n) 2 CHR ''0'' =
    (if n < 10 then [CHR ''0'', digit_char n] else [digit_char (n div 10), digit_char (n mod 10)])"
  by (simp add: padStart_def String_nat_digit String_nat_two)


lemma mod_add_small:
  assumes "0 < (n::int)" "0 \<le> k" "q mod n + k < n"
  shows "(q + k) mod n = q mod n + k"
proof -
  have e: "q + k = n * (q div n) + (q mod n + k)" by simp
  have "0 \<le> q mod n" using assms(1) by simp
  then have "0 \<le> q mod n + k" using assms(2) by linarith
  then show ?thesis using assms(3) by (intro int_mod_pos_eq[OF e])
qed

lemma hour_after_top:
  assumes "HourFromTime b \<le> 22"
  shows "HourFromTime (b - b mod msPerHour + msPerHour) = HourFromTime b + 1"
    and "MinFromTime (b - b mod msPerHour + msPerHour) = 0"
proof -
  define q where "q = b div msPerHour"
  have "b - b mod msPerHour = q * msPerHour" by (simp only: q_def minus_mod_eq_div_mult)
  then have top: "b - b mod msPerHour + msPerHour = (q + 1) * msPerHour"
    by (simp only: distrib_right mult_1)
  have d: "((q + 1) * msPerHour) div msPerHour = q + 1" by (simp add: msPerHour_def)
  have h: "q mod 24 \<le> 22" using assms unfolding HourFromTime_def q_def .
  have "(q + 1) mod 24 = q mod 24 + 1" using h by (intro mod_add_small) linarith+
  then show "HourFromTime (b - b mod msPerHour + msPerHour) = HourFromTime b + 1"
    unfolding top HourFromTime_def d q_def[symmetric] .
  have "(q + 1) * msPerHour = ((q + 1) * 60) * msPerMinute"
    by (simp add: msPerHour_def msPerMinute_def)
  then have "((q + 1) * msPerHour) div msPerMinute = (q + 1) * 60"
    by (simp add: msPerMinute_def)
  then show "MinFromTime (b - b mod msPerHour + msPerHour) = 0"
    unfolding top by (simp add: MinFromTime_def)
qed

lemma two_hours_after_top:
  assumes "HourFromTime b \<le> 21"
  shows "HourFromTime (b - b mod msPerHour + 2 * msPerHour) = HourFromTime b + 2"
    and "MinFromTime (b - b mod msPerHour + 2 * msPerHour) = 0"
proof -
  define q where "q = b div msPerHour"
  have "b - b mod msPerHour = q * msPerHour" by (simp only: q_def minus_mod_eq_div_mult)
  then have top: "b - b mod msPerHour + 2 * msPerHour = (q + 2) * msPerHour"
    by (simp only: distrib_right)
  have d: "((q + 2) * msPerHour) div msPerHour = q + 2" by (simp add: msPerHour_def)
  have h: "q mod 24 \<le> 21" using assms unfolding HourFromTime_def q_def .
  have "(q + 2) mod 24 = q mod 24 + 2" using h by (intro mod_add_small) linarith+
  then show "HourFromTime (b - b mod msPerHour + 2 * msPerHour) = HourFromTime b + 2"
    unfolding top HourFromTime_def d q_def[symmetric] .
  have "(q + 2) * msPerHour = ((q + 2) * 60) * msPerMinute"
    by (simp add: msPerHour_def msPerMinute_def)
  then have "((q + 2) * msPerHour) div msPerMinute = (q + 2) * 60"
    by (simp add: msPerMinute_def)
  then show "MinFromTime (b - b mod msPerHour + 2 * msPerHour) = 0"
    unfolding top by (simp add: MinFromTime_def)
qed

lemma default_time_string:
  assumes "0 < h"
  shows "padStart (String_int h) 2 CHR ''0'' @ '':00'' =
         addLeadingZeros h 2 @ '':'' @ addLeadingZeros 0 2"
proof -
  have "String_nat 0 = ''0''" by code_simp
  then have "addLeadingZeros 0 2 = ''00''" by (simp add: addLeadingZeros_def padStart_def)
  then show ?thesis using assms by (simp add: addLeadingZeros_def String_int_def)
qed

lemma first_color: "first_elem EVENT_COLORS = Some (''Blue'', ''#3b82f6'')"
  by (simp add: EVENT_COLORS_def first_elem_def)

text \<open>
  C6 (as amended): the defaults are taken from a base instant, which is the clicked date
  when one is supplied and the current time otherwise. When the local hour of the base
  instant is at most 21, the start time is the \<open>HH:mm\<close> time of the top of the base
  instant's hour plus one hour and the end time that of the top of the hour plus two
  hours; start and end date are the date of the base instant; title and description are
  empty, the color is the first palette entry and the category is empty.
\<close>

theorem getDefaultFormData_spec:
  "base = (case clicked of Some d \<Rightarrow> d | None \<Rightarrow> now) \<and> getHours base \<le> 21 \<longrightarrow>
     EventFormData.startTime (getDefaultFormData now clicked) =
       formatTimeForInput (base - base mod msPerHour + msPerHour)
   \<and> EventFormData.endTime (getDefaultFormData now clicked) =
       formatTimeForInput (base - base mod msPerHour + 2 * msPerHour)
   \<and> getHours (base - base mod msPerHour + msPerHour) = getHours base + 1
   \<and> getHours (base - base mod msPerHour + 2 * msPerHour) = getHours base + 2
   \<and> EventFormData.startDate (getDefaultFormData now clicked) = formatDateForInput base
   \<and> EventFormData.endDate (getDefaultFormData now clicked) = formatDateForInput base
   \<and> EventFormData.title (getDefaultFormData now clicked) = ''''
   \<and> EventFormData.description (getDefaultFormData now clicked) = ''''
   \<and> EventFormData.color (getDefaultFormData now clicked) = snd (EVENT_COLORS ! 0)
   \<and> EventFormData.category (getDefaultFormData now clicked) = ''''"
proof
  assume a: "base = (case clicked of Some d \<Rightarrow> d | None \<Rightarrow> now) \<and> getHours base \<le> 21"
  then have h21: "HourFromTime base \<le> 21" and h22: "HourFromTime base \<le> 22"
    by (auto simp: getHours_def)
  have h0: "0 \<le> HourFromTime base" using HourFromTime_range[of base] by simp
  have beq: "(case clicked of Some d \<Rightarrow> d | None \<Rightarrow> now) = base" using a by simp
  have s: "EventFormData.startTime (getDefaultFormData now clicked) =
       formatTimeForInput (base - base mod msPerHour + msPerHour)"
    using h0 default_time_string[of "HourFromTime base + 1"]
    by (simp add: beq getDefaultFormData_def Let_def formatTimeForInput_def hour_after_top[OF h22]
        getHours_def)
  have e: "EventFormData.endTime (getDefaultFormData now clicked) =
       formatTimeForInput (base - base mod msPerHour + 2 * msPerHour)"
    using h0 default_time_string[of "HourFromTime base + 1 + 1"]
    by (simp add: beq getDefaultFormData_def Let_def formatTimeForInput_def two_hours_after_top[OF h21]
        getHours_def add.commute)
  have c: "snd (EVENT_COLORS ! 0) = ''#3b82f6''" by (simp add: EVENT_COLORS_def)
  show "EventFormData.startTime (getDefaultFormData now clicked) =
       formatTimeForInput (base - base mod msPerHour + msPerHour)
   \<and> EventFormData.endTime (getDefaultFormData now clicked) =
       formatTimeForInput (base - base mod msPerHour + 2 * msPerHour)
   \<and> getHours (base - base mod msPerHour + msPerHour) = getHours base + 1
   \<and> getHours (base - base mod msPerHour + 2 * msPerHour) = getHours base + 2
   \<and> EventFormData.startDate (getDefaultFormData now clicked) = formatDateForInput base
   \<and> EventFormData.endDate (getDefaultFormData now clicked) = formatDateForInput base
   \<and> EventFormData.title (getDefaultFormData now clicked) = ''''
   \<and> EventFormData.description (getDefaultFormData now clicked) = ''''
   \<and> EventFormData.color (getDefaultFormData now clicked) = snd (EVENT_COLORS ! 0)
   \<and> EventFormData.category (getDefaultFormData now clicked) = ''''"
    using s e
    by (simp add: beq getDefaultFormData_def Let_def first_color c getHours_def
        hour_after_top[OF h22] two_hours_after_top[OF h21])
qed

theorem getDefaultFormData_spec_witness:
  "getHours (MakeDate (MakeDay 2024 2 5) (MakeTime 14 30 0 0)) \<le> 21
   \<and> EventFormData.startTime (getDefaultFormData (MakeDate (MakeDay 2024 2 5) (MakeTime 14 30 0 0)) None) = ''15:00''
   \<and> EventFormData.endTime (getDefaultFormData (MakeDate (MakeDay 2024 2 5) (MakeTime 14 30 0 0)) None) = ''16:00''
   \<and> EventFormData.startDate (getDefaultFormData (MakeDate (MakeDay 2024 2 5) (MakeTime 14 30 0 0)) None) = ''2024-03-05''"
proof -
  have h: "getHours (MakeDate (MakeDay 2024 2 5) (MakeTime 14 30 0 0)) \<le> 21" by code_simp
  have f: "formatTimeForInput (MakeDate (MakeDay 2024 2 5) (MakeTime 14 30 0 0)
             - MakeDate (MakeDay 2024 2 5) (MakeTime 14 30 0 0) mod msPerHour + msPerHour) = ''15:00''
      \<and> formatTimeForInput (MakeDate (MakeDay 2024 2 5) (MakeTime 14 30 0 0)
             - MakeDate (MakeDay 2024 2 5) (MakeTime 14 30 0 0) mod msPerHour + 2 * msPerHour) = ''16:00''
      \<and> formatDateForInput (MakeDate (MakeDay 2024 2 5) (MakeTime 14 30 0 0)) = ''2024-03-05''"
    by code_simp
  show ?thesis
    using getDefaultFormData_spec[where base = "MakeDate (MakeDay 2024 2 5) (MakeTime 14 30 0 0)"
        and clicked = None and now = "MakeDate (MakeDay 2024 2 5) (MakeTime 14 30 0 0)"] h f
    by simp
qed

text \<open>C6 as stated fails when a date is clicked: at 14:30 on 2024-03-05, a click on the
  cell of 2024-03-10 (its midnight) gives the start time 01:00, not 15:00.\<close>

theorem getDefaultFormData_clicked_counterexample:
  "EventFormData.startTime (getDefaultFormData (MakeDate (MakeDay 2024 2 5) (MakeTime 14 30 0 0))
      (Some (MakeDate (MakeDay 2024 2 10) 0))) = ''01:00''
   \<and> formatTimeForInput (MakeDate (MakeDay 2024 2 5) (MakeTime 14 30 0 0)
          - MakeDate (MakeDay 2024 2 5) (MakeTime 14 30 0 0) mod msPerHour + msPerHour) = ''15:00''"
  by code_simp

text \<open>From 22:00 on, the hour is not wrapped: at 23:15 the defaults are 24:00 and
  25:00 on the same date.\<close>

lemma getDefaultFormData_late_hour:
  "EventFormData.startTime (getDefaultFormData (MakeDate (MakeDay 2024 2 5) (MakeTime 23 15 0 0)) None) = ''24:00''
   \<and> EventFormData.endTime (getDefaultFormData (MakeDate (MakeDay 2024 2 5) (MakeTime 23 15 0 0)) None) = ''25:00''
   \<and> EventFormData.startDate (getDefaultFormData (MakeDate (MakeDay 2024 2 5) (MakeTime 23 15 0 0)) None) = ''2024-03-05''"
  by code_simp

section \<open>Round trip between events and form fields\<close>































end
